theory Spec2Isabelle
  imports Complex_Main
begin

section \<open>JavaScript strings\<close>

text \<open>
  A JavaScript string is a sequence of UTF-16 code units and \<open>length\<close> counts code units.
  A code unit is modelled by its numeric value, a string by the list of its code units.
  ASCII literals of the source are written with \<open>ascii\<close>.
\<close>

type_synonym jschar = nat
type_synonym jsstring = "jschar list"

definition ascii :: "string \<Rightarrow> jsstring" where
  "ascii s = map of_char s"

text \<open>
  The code units that \<open>String.prototype.trim\<close> strips and that \<open>\s\<close> matches in a regular
  expression (WhiteSpace and LineTerminator of the language standard).
\<close>

definition isWhiteSpace :: "jschar \<Rightarrow> bool" where
  "isWhiteSpace c \<longleftrightarrow>
     c = 9 \<or> c = 10 \<or> c = 11 \<or> c = 12 \<or> c = 13 \<or> c = 32 \<or> c = 160 \<or> c = 5760 \<or>
     (8192 \<le> c \<and> c \<le> 8202) \<or> c = 8232 \<or> c = 8233 \<or> c = 8239 \<or> c = 8287 \<or>
     c = 12288 \<or> c = 65279"

definition trim :: "jsstring \<Rightarrow> jsstring" where
  "trim s = rev (dropWhile isWhiteSpace (rev (dropWhile isWhiteSpace s)))"

text \<open>
  \<open>toLowerCase\<close> on the letters A to Z; the other code units are left as they are (the
  names handled here are compared with the ASCII words \<open>pune\<close> and \<open>maharashtra\<close>).
\<close>

definition lowerChar :: "jschar \<Rightarrow> jschar" where
  "lowerChar c = (if 65 \<le> c \<and> c \<le> 90 then c + 32 else c)"

definition toLowerCase :: "jsstring \<Rightarrow> jsstring" where
  "toLowerCase s = map lowerChar s"

text \<open>\<open>s.includes(t)\<close>: \<open>t\<close> occurs in \<open>s\<close> as a contiguous run.\<close>

fun str_includes :: "jsstring \<Rightarrow> jsstring \<Rightarrow> bool" where
  "str_includes [] t = (t = [])"
| "str_includes (c # cs) t = (take (length t) (c # cs) = t \<or> str_includes cs t)"

text \<open>
  \<open>s.split(sep)\<close> for a literal separator: the pieces between the leftmost, non-overlapping
  occurrences of \<open>sep\<close>. \<open>splitBy\<close> carries the piece read so far.
\<close>

fun splitBy :: "jsstring \<Rightarrow> jsstring \<Rightarrow> jsstring \<Rightarrow> jsstring list" where
  "splitBy sep cur [] = [cur]"
| "splitBy sep cur (c # cs) =
     (if take (length sep) (c # cs) = sep
      then cur # splitBy sep [] (drop (length sep - 1) cs)
      else splitBy sep (cur @ [c]) cs)"

definition split :: "jsstring \<Rightarrow> jsstring \<Rightarrow> jsstring list" where
  "split sep s = (if sep = [] then map (\<lambda>c. [c]) s else splitBy sep [] s)"

text \<open>
  The sentence split of \<open>splitLongMessage\<close>, \<open>paragraph.split(/(?<=[.!?...])\s+/)\<close>: a
  maximal run of white space is a separator when the code unit before it is in the class.
  The class holds \<open>.\<close>, \<open>!\<close>, \<open>?\<close> and the three code units U+00E0, U+00A5, U+00A4 that the
  source file has in the place of the danda.
\<close>

definition isSentenceEnd :: "jschar \<Rightarrow> bool" where
  "isSentenceEnd c \<longleftrightarrow> c = 46 \<or> c = 33 \<or> c = 63 \<or> c = 224 \<or> c = 165 \<or> c = 164"

function splitSentences :: "jsstring \<Rightarrow> jsstring \<Rightarrow> jsstring list" where
  "splitSentences cur [] = [cur]"
| "splitSentences cur (c # cs) =
     (if isWhiteSpace c \<and> cur \<noteq> [] \<and> isSentenceEnd (last cur)
      then cur # splitSentences [] (dropWhile isWhiteSpace cs)
      else splitSentences (cur @ [c]) cs)"
  by pat_completeness auto
termination
  by (relation "measure (\<lambda>(cur, s). length s)")
     (auto intro: le_imp_less_Suc length_dropWhile_le)

text \<open>The decimal digits of a number, as template literals print it.\<close>

function toDigits :: "nat \<Rightarrow> jsstring" where
  "toDigits n = (if n < 10 then [48 + n] else toDigits (n div 10) @ [48 + n mod 10])"
  by pat_completeness auto
termination
  by (relation "measure id") auto

declare toDigits.simps [simp del]

section \<open>Splitting long messages\<close>

definition MAX_LENGTH :: nat where
  "MAX_LENGTH = 4000"

text \<open>
  The three nested loops of \<open>splitLongMessage\<close>. Each threads the pair of \<open>parts\<close> and
  \<open>currentPart\<close> that the source mutates.
\<close>

fun wordsLoop :: "jsstring list \<Rightarrow> jsstring list \<times> jsstring \<Rightarrow> jsstring list \<times> jsstring" where
  "wordsLoop [] st = st"
| "wordsLoop (word # ws) (parts, currentPart) =
     wordsLoop ws
       (if length currentPart + length word + 1 > MAX_LENGTH then
          (if length currentPart > 0 then (parts @ [trim currentPart], word)
           else (parts @ [take MAX_LENGTH word], drop MAX_LENGTH word))
        else (parts, currentPart @ (if length currentPart > 0 then ascii '' '' else []) @ word))"

fun sentencesLoop :: "jsstring list \<Rightarrow> jsstring list \<times> jsstring \<Rightarrow> jsstring list \<times> jsstring" where
  "sentencesLoop [] st = st"
| "sentencesLoop (sentence # ss) (parts, currentPart) =
     sentencesLoop ss
       (if length currentPart + length sentence + 1 > MAX_LENGTH then
          (let (parts1, currentPart1) =
                 (if length currentPart > 0 then (parts @ [trim currentPart], [])
                  else (parts, currentPart))
           in if length sentence > MAX_LENGTH
              then wordsLoop (split (ascii '' '') sentence) (parts1, currentPart1)
              else (parts1, sentence))
        else (parts, currentPart @ (if length currentPart > 0 then ascii '' '' else []) @ sentence))"

fun paragraphsLoop :: "jsstring list \<Rightarrow> jsstring list \<times> jsstring \<Rightarrow> jsstring list \<times> jsstring" where
  "paragraphsLoop [] st = st"
| "paragraphsLoop (paragraph # ps) (parts, currentPart) =
     paragraphsLoop ps
       (if length currentPart + length paragraph + 2 > MAX_LENGTH then
          (let (parts1, currentPart1) =
                 (if length currentPart > 0 then (parts @ [trim currentPart], [])
                  else (parts, currentPart))
           in if length paragraph > MAX_LENGTH
              then sentencesLoop (splitSentences [] paragraph) (parts1, currentPart1)
              else (parts1, paragraph))
        else (parts, currentPart @ (if length currentPart > 0 then [10, 10] else []) @ paragraph))"

text \<open>
  The part indicator appended to each part of a multi-part message: two line feeds, the
  three code units U+00F0, U+0178, U+201C of the source file, and \<open>(index + 1/parts.length)\<close>.
\<close>

definition partIndicator :: "nat \<Rightarrow> nat \<Rightarrow> jsstring" where
  "partIndicator index count =
     [10, 10, 240, 376, 8220] @ ascii '' ('' @ toDigits (index + 1) @ ascii ''/'' @
     toDigits count @ ascii '')''"

definition addIndicators :: "jsstring list \<Rightarrow> jsstring list" where
  "addIndicators parts =
     map (\<lambda>(index, part). part @ partIndicator index (length parts))
         (zip [0 ..< length parts] parts)"

definition splitLongMessage :: "jsstring \<Rightarrow> jsstring list" where
  "splitLongMessage message =
     (if length message \<le> MAX_LENGTH then [message]
      else
        let (parts, currentPart) = paragraphsLoop (split [10, 10] message) ([], []);
            parts1 = (if length currentPart > 0 then parts @ [trim currentPart] else parts)
        in if length parts1 > 1 then addIndicators parts1 else parts1)"

section \<open>Languages, states and replies\<close>

datatype language = Mr | En

text \<open>
  The texts the assistant sends. The Marathi and English literals of the source are named
  by a constructor and their language; \<open>Generated\<close> is a text written by the language model.
\<close>

datatype state_id = Initial | Awaiting_name | Awaiting_village | Completed

datatype message =
    Msg_village_not_found language
  | Msg_not_in_pune_zp language
  | Msg_geocoding_technical_issue language
  | Msg_welcome language "jsstring option"
  | Msg_registration_complete language "jsstring option" "jsstring option"
  | Msg_default_prompt state_id language
  | Msg_retry_prompt state_id language
  | Msg_technical_issue language
  | Generated jsstring

section \<open>Geocoding service\<close>

text \<open>
  The numbers of the program are JavaScript doubles. Coordinates and confidences are
  modelled as real numbers, scores and counters as natural numbers, times as integers.
\<close>

record location =
  lat :: real
  lng :: real

record address_component =
  long_name :: jsstring
  short_name :: jsstring
  types :: "jsstring list"

text \<open>
  One result of the geocoding provider. \<open>geo_location\<close> is \<open>geometry.location\<close>, absent in a
  malformed result; \<open>location_type\<close> is \<open>geometry.location_type\<close>.
\<close>

record geocode_candidate =
  formatted_address :: jsstring
  address_components :: "address_component list"
  place_id :: jsstring
  geo_location :: "location option"
  geo_bounds :: "(location \<times> location) option"
  location_type :: jsstring

text \<open>
  What one HTTP request to the provider gives: an exception (\<open>Request_failed\<close>) or a body
  with a status and a list of results. The provider is a function of the address queried
  and the language parameter.
\<close>

datatype provider_response = Request_failed | Response jsstring "geocode_candidate list"

type_synonym provider = "jsstring \<Rightarrow> jsstring \<Rightarrow> provider_response"

record admin_details =
  village :: "jsstring option"
  taluka :: "jsstring option"
  district :: "jsstring option"
  state :: "jsstring option"
  country :: "jsstring option"
  pincode :: "jsstring option"

record geocode_success =
  villageName :: jsstring
  coordinates :: location
  formattedAddress :: jsstring
  placeId :: jsstring
  administrative :: admin_details
  bounds :: "(location \<times> location) option"
  locationType :: jsstring
  confidence :: nat
  geocodedAt :: int

datatype geocode_error = Village_not_found | Village_not_in_Pune_ZP | Geocoding_service_error

record geocode_failure =
  error :: geocode_error
  fail_location :: "location option"
  fail_address :: "jsstring option"
  fail_message :: message

datatype geocode_outcome = Success geocode_success | Failure geocode_failure


text \<open>\<open>PUNE_ZP_BOUNDS\<close>: south-west corner (18.0, 73.5), north-east corner (19.5, 75.0).\<close>

definition PUNE_ZP_BOUNDS_southwest :: location where
  "PUNE_ZP_BOUNDS_southwest = \<lparr>lat = 18, lng = 73.5\<rparr>"

definition PUNE_ZP_BOUNDS_northeast :: location where
  "PUNE_ZP_BOUNDS_northeast = \<lparr>lat = 19.5, lng = 75\<rparr>"

definition isLocationInPuneZP :: "location \<Rightarrow> bool" where
  "isLocationInPuneZP loc \<longleftrightarrow>
     lat loc \<ge> lat PUNE_ZP_BOUNDS_southwest \<and>
     lat loc \<le> lat PUNE_ZP_BOUNDS_northeast \<and>
     lng loc \<ge> lng PUNE_ZP_BOUNDS_southwest \<and>
     lng loc \<le> lng PUNE_ZP_BOUNDS_northeast"

text \<open>
  \<open>calculateRelevanceScore\<close>: the loop over the address components adds to \<open>score\<close>
  (\<open>scoreComponent\<close> is the body of the loop); then come the bonus for the formatted address
  and the \<open>switch\<close> on the location type, which has no default branch.
\<close>

definition scoreComponent :: "jsstring \<Rightarrow> nat \<Rightarrow> address_component \<Rightarrow> nat" where
  "scoreComponent searchLower score component =
     (let longName = toLowerCase (long_name component);
          shortName = toLowerCase (short_name component);
          score1 = (if longName = searchLower \<or> shortName = searchLower then score + 100
                    else if str_includes longName searchLower \<or> str_includes shortName searchLower
                    then score + 50 else score);
          score2 = (if ascii ''administrative_area_level_2'' \<in> set (types component) \<and>
                       str_includes longName (ascii ''pune'')
                    then score1 + 30 else score1);
          score3 = (if ascii ''administrative_area_level_1'' \<in> set (types component) \<and>
                       str_includes longName (ascii ''maharashtra'')
                    then score2 + 20 else score2)
      in score3)"

fun componentsLoop :: "jsstring \<Rightarrow> address_component list \<Rightarrow> nat \<Rightarrow> nat" where
  "componentsLoop searchLower [] score = score"
| "componentsLoop searchLower (component # rest) score =
     componentsLoop searchLower rest (scoreComponent searchLower score component)"

definition locationTypeBonus :: "jsstring \<Rightarrow> nat" where
  "locationTypeBonus t =
     (if t = ascii ''ROOFTOP'' then 20
      else if t = ascii ''RANGE_INTERPOLATED'' then 15
      else if t = ascii ''GEOMETRIC_CENTER'' then 10
      else if t = ascii ''APPROXIMATE'' then 5
      else 0)"

definition calculateRelevanceScore :: "geocode_candidate \<Rightarrow> jsstring \<Rightarrow> nat" where
  "calculateRelevanceScore result searchTerm =
     (let searchLower = toLowerCase searchTerm;
          addressLower = toLowerCase (formatted_address result);
          score = componentsLoop searchLower (address_components result) 0;
          score1 = (if str_includes addressLower searchLower then score + 25 else score)
      in score1 + locationTypeBonus (location_type result))"

text \<open>
  \<open>extractAdministrativeDetails\<close>: one \<open>if\<close>/\<open>else if\<close> chain per component, each branch
  assigning its field.
\<close>

definition assignAdministrative :: "admin_details \<Rightarrow> address_component \<Rightarrow> admin_details" where
  "assignAdministrative details component =
     (let ts = set (types component) in
      if ascii ''locality'' \<in> ts \<or> ascii ''sublocality'' \<in> ts
        then details\<lparr>village := Some (long_name component)\<rparr>
      else if ascii ''administrative_area_level_3'' \<in> ts
        then details\<lparr>taluka := Some (long_name component)\<rparr>
      else if ascii ''administrative_area_level_2'' \<in> ts
        then details\<lparr>district := Some (long_name component)\<rparr>
      else if ascii ''administrative_area_level_1'' \<in> ts
        then details\<lparr>state := Some (long_name component)\<rparr>
      else if ascii ''country'' \<in> ts
        then details\<lparr>country := Some (long_name component)\<rparr>
      else if ascii ''postal_code'' \<in> ts
        then details\<lparr>pincode := Some (long_name component)\<rparr>
      else details)"

definition extractAdministrativeDetails :: "geocode_candidate \<Rightarrow> admin_details" where
  "extractAdministrativeDetails result =
     foldl assignAdministrative
       \<lparr>village = None, taluka = None, district = None, state = None, country = None,
        pincode = None\<rparr>
       (address_components result)"

subsection \<open>The geocoding cache\<close>

text \<open>
  The \<open>geocoding\<close> collection. Both cache functions address a document with
  \<open>geocodingCollection.doc(cacheKey)\<close>, where \<open>cacheKey\<close> is the lower-cased, trimmed village
  name. The database client is a dependency of the repository; its check of the argument
  of \<open>doc\<close> is written out here as the client documents it: the argument must be a
  non-empty string without \<open>//\<close>; it is split at \<open>/\<close>, empty segments are dropped and the
  rest is appended to the path of the collection; the resulting path must have an even
  number of segments to name a document, else \<open>doc\<close> throws. So a key with one \<open>/\<close> inside,
  such as \<open>pune/saswad\<close>, and the empty key of a name of white space only are refused, and a
  key such as \<open>/saswad\<close> addresses the same document as \<open>saswad\<close>. The cache is the map from
  document paths to documents. Times are in milliseconds.
\<close>

record cache_entry =
  entry_villageName :: jsstring
  entry_result :: geocode_outcome
  cachedAt :: int

type_synonym document_path = "jsstring list"

type_synonym geocode_cache = "document_path \<rightharpoonup> cache_entry"

definition cacheKey :: "jsstring \<Rightarrow> jsstring" where
  "cacheKey name = trim (toLowerCase name)"

definition doc :: "jsstring \<Rightarrow> document_path option" where
  "doc documentPath =
     (if documentPath = [] \<or> str_includes documentPath (ascii ''//'') then None
      else (let path = [ascii ''geocoding''] @
                         filter (\<lambda>segment. length segment > 0) (split (ascii ''/'') documentPath)
            in if length path mod 2 = 0 then Some path else None))"

text \<open>
  \<open>cacheGeocode\<close>: the entry is written to the document of the key; when \<open>doc\<close> throws, the
  \<open>catch\<close> block logs the error and nothing is written.
\<close>

definition cacheGeocode ::
  "geocode_cache \<Rightarrow> int \<Rightarrow> jsstring \<Rightarrow> geocode_outcome \<Rightarrow> geocode_cache" where
  "cacheGeocode cache serverTime name result =
     (case doc (cacheKey name) of
        None \<Rightarrow> cache
      | Some ref \<Rightarrow>
          cache(ref \<mapsto>
            \<lparr>entry_villageName = name, entry_result = result, cachedAt = serverTime\<rparr>))"

text \<open>
  \<open>getCachedGeocode\<close> returns the cached result, if any, and the cache it leaves; when
  \<open>doc\<close> throws, the \<open>catch\<close> block returns \<open>null\<close>.
\<close>

definition getCachedGeocode ::
  "geocode_cache \<Rightarrow> int \<Rightarrow> jsstring \<Rightarrow> geocode_outcome option \<times> geocode_cache" where
  "getCachedGeocode cache now name =
     (case doc (cacheKey name) of
        None \<Rightarrow> (None, cache)
      | Some ref \<Rightarrow>
          (case cache ref of
             None \<Rightarrow> (None, cache)
           | Some data \<Rightarrow>
               (let hoursDiff = real_of_int (now - cachedAt data) / (1000 * 60 * 60)
                in if hoursDiff < 24 then (Some (entry_result data), cache)
                   else (None, cache(ref := None)))))"

subsection \<open>\<open>geocodeVillage\<close>\<close>

definition searchQueries :: "jsstring \<Rightarrow> jsstring list" where
  "searchQueries name =
     [name @ ascii '', Pune District, Maharashtra, India'',
      name @ ascii '', Pune, Maharashtra, India'',
      name @ ascii '' village, Pune District, Maharashtra'',
      name @ ascii '', Maharashtra, India'']"

definition providerLanguage :: "language \<Rightarrow> jsstring" where
  "providerLanguage l = (if l = Mr then ascii ''hi'' else ascii ''en'')"

text \<open>
  The loop over the query templates, with \<open>bestResult\<close> and \<open>highestScore\<close> as its state. A
  request that throws is caught in the loop, which goes on with the next template.
\<close>

fun templatesLoop ::
  "provider \<Rightarrow> jsstring \<Rightarrow> language \<Rightarrow> jsstring list \<Rightarrow>
   geocode_candidate option \<times> nat \<Rightarrow> geocode_candidate option \<times> nat" where
  "templatesLoop prov name l [] st = st"
| "templatesLoop prov name l (query # rest) (bestResult, highestScore) =
     templatesLoop prov name l rest
       (case prov query (providerLanguage l) of
          Request_failed \<Rightarrow> (bestResult, highestScore)
        | Response status results \<Rightarrow>
            (case results of
               [] \<Rightarrow> (bestResult, highestScore)
             | result # _ \<Rightarrow>
                 if status = ascii ''OK'' then
                   (let score = calculateRelevanceScore result name
                    in if score > highestScore then (Some result, score)
                       else (bestResult, highestScore))
                 else (bestResult, highestScore)))"

text \<open>
  The three clock readings of one call: the local time when the cache is read, the local
  time written to \<open>geocodedAt\<close>, and the server time stamped on the cache entry.
\<close>

record clock =
  lookupTime :: int
  geocodeTime :: int
  serverTime :: int

text \<open>
  The result of a call: the outcome, the cache it leaves, and the addresses it asked the
  provider for, in order.
\<close>

record geocode_call =
  outcome :: geocode_outcome
  cache_after :: geocode_cache
  lookups :: "jsstring list"

definition geocodeVillage ::
  "provider \<Rightarrow> clock \<Rightarrow> geocode_cache \<Rightarrow> jsstring \<Rightarrow> language \<Rightarrow> geocode_call" where
  "geocodeVillage prov clk cache name l =
     (case getCachedGeocode cache (lookupTime clk) name of
        (Some cachedResult, cache1) \<Rightarrow>
          \<lparr>outcome = cachedResult, cache_after = cache1, lookups = []\<rparr>
      | (None, cache1) \<Rightarrow>
          (case templatesLoop prov name l (searchQueries name) (None, 0) of
             (None, highestScore) \<Rightarrow>
               \<lparr>outcome = Failure \<lparr>error = Village_not_found, fail_location = None,
                    fail_address = None, fail_message = Msg_village_not_found l\<rparr>,
                cache_after = cache1, lookups = searchQueries name\<rparr>
           | (Some bestResult, highestScore) \<Rightarrow>
               (case geo_location bestResult of
                  None \<Rightarrow>
                    \<lparr>outcome = Failure \<lparr>error = Geocoding_service_error, fail_location = None,
                         fail_address = None, fail_message = Msg_geocoding_technical_issue l\<rparr>,
                     cache_after = cache1, lookups = searchQueries name\<rparr>
                | Some loc \<Rightarrow>
                    if \<not> isLocationInPuneZP loc then
                      \<lparr>outcome = Failure \<lparr>error = Village_not_in_Pune_ZP,
                           fail_location = Some loc,
                           fail_address = Some (formatted_address bestResult),
                           fail_message = Msg_not_in_pune_zp l\<rparr>,
                       cache_after = cache1, lookups = searchQueries name\<rparr>
                    else
                      (let geocodeResult = Success
                             \<lparr>villageName = name, coordinates = loc,
                              formattedAddress = formatted_address bestResult,
                              placeId = place_id bestResult,
                              administrative = extractAdministrativeDetails bestResult,
                              bounds = geo_bounds bestResult,
                              locationType = location_type bestResult,
                              confidence = highestScore,
                              geocodedAt = geocodeTime clk\<rparr>
                       in \<lparr>outcome = geocodeResult,
                           cache_after = cacheGeocode cache1 (serverTime clk) name geocodeResult,
                           lookups = searchQueries name\<rparr>))))"

section \<open>Language model calls\<close>

text \<open>
  The two structured calls of \<open>openaiService\<close>. What the model answers is outside the
  program, so the answers are parameters: \<open>classify\<close> gives the parsed arguments of
  \<open>analyze_registration_state\<close>, or no tool call, or throws; the two extractors give the parsed
  arguments of \<open>extract_user_name\<close> and \<open>extract_village_info\<close>, or nothing; \<open>contextual\<close> is
  the generated reply, or nothing.
\<close>

datatype intent = Providing_info | Asking_question | Greeting | Confused | Other

record state_analysis =
  current_state :: state_id
  user_intent :: intent
  has_required_data :: bool
  next_state :: state_id
  sa_confidence :: real
  reason :: jsstring

datatype classifier_result = Classifier_threw | No_tool_call | Analysis state_analysis

record llm =
  classify :: "jsstring \<Rightarrow> state_id \<Rightarrow> classifier_result"
  extractName :: "jsstring \<Rightarrow> (jsstring \<times> real) option"
  extractVillage :: "jsstring \<Rightarrow> (jsstring \<times> real \<times> bool) option"
  contextual :: "message option"

text \<open>
  \<open>extractedData\<close>: the fields the extractor returns for the state, and for a village the
  fields that \<open>processRegistrationWithFunctions\<close> adds after geocoding.
\<close>

record extracted_data =
  full_name :: "jsstring option"
  village_name :: "jsstring option"
  ed_confidence :: real
  needs_geocoding :: "bool option"
  geocoding :: "geocode_success option"
  ed_coordinates :: "location option"
  validated_village :: "jsstring option"
  ed_taluka :: "jsstring option"

record function_results =
  stateAnalysis :: "state_analysis option"
  extractedData :: "extracted_data option"
  shouldTransition :: bool
  nextState :: state_id
  fr_confidence :: real
  geocodingError :: "message option"

text \<open>A string value is truthy when it is present and not empty; \<open>a || b\<close> on such values.\<close>

definition truthy :: "jsstring option \<Rightarrow> bool" where
  "truthy v = (case v of None \<Rightarrow> False | Some s \<Rightarrow> s \<noteq> [])"

definition or_else :: "jsstring option \<Rightarrow> jsstring option \<Rightarrow> jsstring option" where
  "or_else a b = (if truthy a then a else b)"

definition extractRegistrationData :: "llm \<Rightarrow> jsstring \<Rightarrow> state_id \<Rightarrow> extracted_data option" where
  "extractRegistrationData ai msg currentState =
     (case currentState of
        Awaiting_name \<Rightarrow>
          (case extractName ai msg of
             None \<Rightarrow> None
           | Some (name, c) \<Rightarrow>
               Some \<lparr>full_name = Some name, village_name = None, ed_confidence = c,
                     needs_geocoding = None, geocoding = None, ed_coordinates = None,
                     validated_village = None, ed_taluka = None\<rparr>)
      | Awaiting_village \<Rightarrow>
          (case extractVillage ai msg of
             None \<Rightarrow> None
           | Some (name, c, g) \<Rightarrow>
               Some \<lparr>full_name = None, village_name = Some name, ed_confidence = c,
                     needs_geocoding = Some g, geocoding = None, ed_coordinates = None,
                     validated_village = None, ed_taluka = None\<rparr>)
      | _ \<Rightarrow> None)"

text \<open>
  \<open>processRegistrationWithFunctions\<close> returns the function results and the geocoding cache
  it leaves. The result of the \<open>catch\<close> block is \<open>failedResults\<close>.
\<close>

definition failedResults :: "state_id \<Rightarrow> function_results" where
  "failedResults currentState =
     \<lparr>stateAnalysis = None, extractedData = None, shouldTransition = False,
      nextState = currentState, fr_confidence = 0, geocodingError = None\<rparr>"

definition analysedResults ::
  "state_analysis option \<Rightarrow> extracted_data option \<Rightarrow> state_id \<Rightarrow> function_results" where
  "analysedResults analysis extracted currentState =
     \<lparr>stateAnalysis = analysis, extractedData = extracted,
      shouldTransition = (case analysis of None \<Rightarrow> False | Some a \<Rightarrow> has_required_data a),
      nextState = (case analysis of None \<Rightarrow> currentState | Some a \<Rightarrow> next_state a),
      fr_confidence = (case analysis of None \<Rightarrow> 0 | Some a \<Rightarrow> sa_confidence a),
      geocodingError = None\<rparr>"

definition mergeGeocode :: "extracted_data \<Rightarrow> geocode_success \<Rightarrow> extracted_data" where
  "mergeGeocode e g =
     e\<lparr>geocoding := Some g,
       ed_coordinates := Some (coordinates g),
       validated_village := or_else (village (administrative g)) (village_name e),
       ed_taluka := taluka (administrative g),
       ed_confidence := min (ed_confidence e) (real (confidence g) / 100)\<rparr>"

definition processRegistrationWithFunctions ::
  "llm \<Rightarrow> provider \<Rightarrow> clock \<Rightarrow> geocode_cache \<Rightarrow> jsstring \<Rightarrow> state_id \<Rightarrow> language \<Rightarrow>
   function_results \<times> geocode_cache" where
  "processRegistrationWithFunctions ai prov clk cache msg currentState l =
     (case classify ai msg currentState of
        Classifier_threw \<Rightarrow> (failedResults currentState, cache)
      | No_tool_call \<Rightarrow> (analysedResults None None currentState, cache)
      | Analysis a \<Rightarrow>
          if has_required_data a then
            (case extractRegistrationData ai msg currentState of
               None \<Rightarrow> (analysedResults (Some a) None currentState, cache)
             | Some e \<Rightarrow>
                 if currentState = Awaiting_village \<and> truthy (village_name e) then
                   (let call = geocodeVillage prov clk cache (the (village_name e)) l
                    in case outcome call of
                         Success g \<Rightarrow>
                           (analysedResults (Some a) (Some (mergeGeocode e g)) currentState,
                            cache_after call)
                       | Failure f \<Rightarrow>
                           (\<lparr>stateAnalysis = Some a, extractedData = None,
                             shouldTransition = False, nextState = currentState,
                             fr_confidence = 0, geocodingError = Some (fail_message f)\<rparr>,
                            cache_after call))
                 else (analysedResults (Some a) (Some e) currentState, cache))
          else (analysedResults (Some a) None currentState, cache))"

section \<open>State manager\<close>

text \<open>\<open>REGISTRATION_STATES\<close>: the \<open>nextStates\<close> of each state.\<close>

fun nextStates :: "state_id \<Rightarrow> state_id list" where
  "nextStates Initial = [Awaiting_name]"
| "nextStates Awaiting_name = [Awaiting_village]"
| "nextStates Awaiting_village = [Completed]"
| "nextStates Completed = []"

text \<open>
  A document of the \<open>states\<close> subcollection of a citizen. Documents are kept in the order
  of their creation; \<open>doc_id\<close> is the identifier of the document. The data passed to a
  transition is \<open>None\<close> for the empty object.
\<close>

record state_record =
  doc_id :: nat
  stateId :: state_id
  isActive :: bool
  attempts :: nat
  functionCallResults :: "function_results list"
  lastFunctionCallResult :: "function_results option"
  isCompleted :: bool
  stamped_extractedData :: "extracted_data option"
  finalConfidence :: "real option"
  previousState :: "state_id option"

record citizen =
  isRegistered :: bool
  userProvidedName :: "jsstring option"
  whatsappDisplayName :: "jsstring option"
  citizen_village :: "jsstring option"
  citizen_coordinates :: "location option"
  citizen_taluka :: "jsstring option"
  geocodingInfo :: "geocode_success option"

text \<open>
  The database: the citizens by WhatsApp number, their \<open>states\<close> and \<open>functionCalls\<close>
  subcollections, and the geocoding cache. Reads and writes of documents are taken to
  succeed, so the \<open>catch\<close> blocks for database errors have no branch here; the one error of
  the database client that is modelled is \<open>doc\<close> refusing a cache key that names no document.
\<close>

record db =
  citizensCollection :: "jsstring \<rightharpoonup> citizen"
  states :: "jsstring \<Rightarrow> state_record list"
  functionCalls :: "jsstring \<Rightarrow> (state_id \<times> function_results) list"
  geocodingCollection :: geocode_cache

definition newStateRecord :: "nat \<Rightarrow> state_id \<Rightarrow> state_id option \<Rightarrow> state_record" where
  "newStateRecord i sid prev =
     \<lparr>doc_id = i, stateId = sid, isActive = True, attempts = 0, functionCallResults = [],
      lastFunctionCallResult = None, isCompleted = False, stamped_extractedData = None,
      finalConfidence = None, previousState = prev\<rparr>"

definition createStateRecord :: "db \<Rightarrow> jsstring \<Rightarrow> state_id \<Rightarrow> db \<times> state_record" where
  "createStateRecord d whatsappNumber sid =
     (let stateData = newStateRecord (length (states d whatsappNumber)) sid None
      in (d\<lparr>states := (states d)(whatsappNumber := states d whatsappNumber @ [stateData])\<rparr>,
          stateData))"

text \<open>\<open>getCurrentState\<close>: the active document created last.\<close>

definition getCurrentState :: "db \<Rightarrow> jsstring \<Rightarrow> state_record option" where
  "getCurrentState d whatsappNumber =
     (case filter isActive (states d whatsappNumber) of
        [] \<Rightarrow> None
      | r # rs \<Rightarrow> Some (last (r # rs)))"

definition updateStateWithFunctionResults ::
  "db \<Rightarrow> jsstring \<Rightarrow> state_record \<Rightarrow> function_results \<Rightarrow> db" where
  "updateStateWithFunctionResults d whatsappNumber currentState results =
     d\<lparr>states := (states d)(whatsappNumber :=
         map (\<lambda>r. if doc_id r = doc_id currentState
                   then r\<lparr>attempts := attempts r + 1,
                          functionCallResults := functionCallResults r @ [results],
                          lastFunctionCallResult := Some results\<rparr>
                   else r)
             (states d whatsappNumber))\<rparr>"

definition storeFunctionCallResultInSubcollection ::
  "db \<Rightarrow> jsstring \<Rightarrow> state_id \<Rightarrow> function_results \<Rightarrow> db" where
  "storeFunctionCallResultInSubcollection d whatsappNumber sid results =
     d\<lparr>functionCalls := (functionCalls d)(whatsappNumber :=
         functionCalls d whatsappNumber @ [(sid, results)])\<rparr>"

text \<open>
  \<open>completeStateTransition\<close>: the update of the current document and the creation of the
  next one are written in one batch, here one update of the list.
\<close>

text \<open>\<open>extractedData.confidence || null\<close>: a confidence of 0 is stored as \<open>null\<close>.\<close>

definition finalConfidenceOf :: "extracted_data option \<Rightarrow> real option" where
  "finalConfidenceOf extracted =
     (case extracted of
        None \<Rightarrow> None
      | Some e \<Rightarrow> if ed_confidence e = 0 then None else Some (ed_confidence e))"

definition completeStateTransition ::
  "db \<Rightarrow> jsstring \<Rightarrow> state_record \<Rightarrow> extracted_data option \<Rightarrow> state_id \<Rightarrow> db" where
  "completeStateTransition d whatsappNumber currentState extracted nextStateId =
     (let deactivated =
            map (\<lambda>r. if doc_id r = doc_id currentState
                      then r\<lparr>isActive := False, isCompleted := True,
                             stamped_extractedData := extracted,
                             finalConfidence := finalConfidenceOf extracted\<rparr>
                      else r)
                (states d whatsappNumber);
          nextStateData =
            newStateRecord (length (states d whatsappNumber)) nextStateId
              (Some (stateId currentState))
      in d\<lparr>states := (states d)(whatsappNumber := deactivated @ [nextStateData])\<rparr>)"

section \<open>Citizen service\<close>

definition newCitizen :: "jsstring option \<Rightarrow> citizen" where
  "newCitizen displayName =
     \<lparr>isRegistered = False, userProvidedName = None, whatsappDisplayName = displayName,
      citizen_village = None, citizen_coordinates = None, citizen_taluka = None,
      geocodingInfo = None\<rparr>"

text \<open>
  \<open>getOrCreateCitizen\<close>: an existing citizen gets the display name of the profile when it
  differs; a new one is stored with its \<open>initial\<close> state.
\<close>

definition getOrCreateCitizen :: "db \<Rightarrow> jsstring \<Rightarrow> jsstring option \<Rightarrow> db \<times> citizen" where
  "getOrCreateCitizen d whatsappNumber displayName =
     (case citizensCollection d whatsappNumber of
        Some c \<Rightarrow>
          (let c1 = (if truthy displayName \<and> displayName \<noteq> whatsappDisplayName c
                     then c\<lparr>whatsappDisplayName := displayName\<rparr> else c)
           in (d\<lparr>citizensCollection := (citizensCollection d)(whatsappNumber \<mapsto> c1)\<rparr>, c1))
      | None \<Rightarrow>
          (let c = newCitizen (if truthy displayName then displayName else None);
               d1 = d\<lparr>citizensCollection := (citizensCollection d)(whatsappNumber \<mapsto> c)\<rparr>
           in (fst (createStateRecord d1 whatsappNumber Initial), c)))"

text \<open>
  \<open>updateCitizenDataFromFunctions\<close>: the \<open>switch\<close> on the state fills \<open>updateData\<close>, which is
  written when the citizen's document exists.
\<close>

definition updateCitizenDataFromFunctions ::
  "db \<Rightarrow> jsstring \<Rightarrow> state_id \<Rightarrow> extracted_data \<Rightarrow> db" where
  "updateCitizenDataFromFunctions d whatsappNumber sid e =
     (case citizensCollection d whatsappNumber of
        None \<Rightarrow> d
      | Some c \<Rightarrow>
          (let c1 =
             (case sid of
                Awaiting_name \<Rightarrow>
                  if truthy (full_name e) then c\<lparr>userProvidedName := full_name e\<rparr> else c
              | Awaiting_village \<Rightarrow>
                  if truthy (village_name e) then
                    (let c2 = c\<lparr>citizen_village :=
                                  or_else (validated_village e) (village_name e)\<rparr>;
                         c3 = (case ed_coordinates e of
                                 None \<Rightarrow> c2
                               | Some xy \<Rightarrow> c2\<lparr>citizen_coordinates := Some xy\<rparr>);
                         c4 = (if truthy (ed_taluka e)
                               then c3\<lparr>citizen_taluka := ed_taluka e\<rparr> else c3)
                     in case geocoding e of
                          None \<Rightarrow> c4
                        | Some g \<Rightarrow> c4\<lparr>geocodingInfo := Some g\<rparr>)
                  else c
              | _ \<Rightarrow> c)
           in d\<lparr>citizensCollection := (citizensCollection d)(whatsappNumber \<mapsto> c1)\<rparr>))"

text \<open>
  \<open>completeRegistration\<close>: the flag is set on the citizen's document, then the \<open>completed\<close>
  state is committed with the empty object as extracted data. Without the document the
  update throws and nothing is done.
\<close>

definition completeRegistration :: "db \<Rightarrow> jsstring \<Rightarrow> state_record \<Rightarrow> db" where
  "completeRegistration d whatsappNumber currentState =
     (case citizensCollection d whatsappNumber of
        None \<Rightarrow> d
      | Some c \<Rightarrow>
          completeStateTransition
            (d\<lparr>citizensCollection :=
                 (citizensCollection d)(whatsappNumber \<mapsto> c\<lparr>isRegistered := True\<rparr>)\<rparr>)
            whatsappNumber currentState None Completed)"

record reply =
  shouldContinue :: bool
  response :: message
  reply_functionCallResults :: "function_results option"

text \<open>The test that guards the merge and the transition.\<close>

definition passesGate :: "function_results \<Rightarrow> bool" where
  "passesGate results \<longleftrightarrow>
     shouldTransition results \<and> extractedData results \<noteq> None \<and> fr_confidence results > 0.7"

definition processRegistrationWithFunctionCalling ::
  "llm \<Rightarrow> provider \<Rightarrow> clock \<Rightarrow> db \<Rightarrow> jsstring \<Rightarrow> jsstring \<Rightarrow> language \<Rightarrow> citizen \<Rightarrow>
   db \<times> reply" where
  "processRegistrationWithFunctionCalling ai prov clk d whatsappNumber msg l citizenData =
     (let (d1, currentState) =
            (case getCurrentState d whatsappNumber of
               None \<Rightarrow> createStateRecord d whatsappNumber Awaiting_name
             | Some st \<Rightarrow> (d, st))
      in if stateId currentState = Initial then
           (completeStateTransition d1 whatsappNumber currentState None Awaiting_name,
            \<lparr>shouldContinue = False,
             response = Msg_welcome l (whatsappDisplayName citizenData),
             reply_functionCallResults = None\<rparr>)
         else
           (let (results, cache1) =
                  processRegistrationWithFunctions ai prov clk (geocodingCollection d1) msg
                    (stateId currentState) l;
                d2 = d1\<lparr>geocodingCollection := cache1\<rparr>
            in case geocodingError results of
                 Some failureMessage \<Rightarrow>
                   (updateStateWithFunctionResults d2 whatsappNumber currentState results,
                    \<lparr>shouldContinue = False, response = failureMessage,
                     reply_functionCallResults = Some results\<rparr>)
               | None \<Rightarrow>
                   (let d3 = updateStateWithFunctionResults d2 whatsappNumber currentState results;
                        d4 = storeFunctionCallResultInSubcollection d3 whatsappNumber
                               (stateId currentState) results
                    in if passesGate results then
                         (let e = the (extractedData results);
                              d5 = updateCitizenDataFromFunctions d4 whatsappNumber
                                     (stateId currentState) e
                          in if nextState results = Completed then
                               (completeRegistration d5 whatsappNumber currentState,
                                \<lparr>shouldContinue = True,
                                 response = Msg_registration_complete l
                                   (or_else (userProvidedName citizenData)
                                      (whatsappDisplayName citizenData))
                                   (or_else (validated_village e) (village_name e)),
                                 reply_functionCallResults = Some results\<rparr>)
                             else
                               (completeStateTransition d5 whatsappNumber currentState (Some e)
                                  (nextState results),
                                \<lparr>shouldContinue = False,
                                 response = (case contextual ai of
                                               Some text \<Rightarrow> text
                                             | None \<Rightarrow> Msg_default_prompt (nextState results) l),
                                 reply_functionCallResults = Some results\<rparr>))
                       else
                         (d4,
                          \<lparr>shouldContinue = False,
                           response = (case contextual ai of
                                         Some text \<Rightarrow> text
                                       | None \<Rightarrow> Msg_retry_prompt (stateId currentState) l),
                           reply_functionCallResults = Some results\<rparr>))))"

section \<open>Notions used in the properties\<close>

subsection \<open>The registration flow\<close>

text \<open>
  Auxiliary notions for the properties: the classifier reports the required data with a
  confidence above 0.7; the identifiers, states and active flags of a citizen's state
  documents; and the state a call starts from, which is created as \<open>awaiting_name\<close> when
  there is no active one.
\<close>

definition classifierAccepts :: "llm \<Rightarrow> jsstring \<Rightarrow> state_id \<Rightarrow> bool" where
  "classifierAccepts ai msg st =
     (case classify ai msg st of
        Analysis a \<Rightarrow> has_required_data a \<and> sa_confidence a > 0.7
      | _ \<Rightarrow> False)"

definition committed :: "db \<Rightarrow> jsstring \<Rightarrow> (nat \<times> state_id \<times> bool) list" where
  "committed d n = map (\<lambda>r. (doc_id r, stateId r, isActive r)) (states d n)"

definition startState :: "db \<Rightarrow> jsstring \<Rightarrow> db \<times> state_record" where
  "startState d n =
     (case getCurrentState d n of
        None \<Rightarrow> createStateRecord d n Awaiting_name
      | Some st \<Rightarrow> (d, st))"

text \<open>
  The two updates of a state document: the one of \<open>completeStateTransition\<close> on the
  current document, and the one of \<open>updateStateWithFunctionResults\<close>.
\<close>

definition deactivate :: "state_record \<Rightarrow> extracted_data option \<Rightarrow> state_record \<Rightarrow> state_record" where
  "deactivate cur extracted r =
     (if doc_id r = doc_id cur
      then r\<lparr>isActive := False, isCompleted := True, stamped_extractedData := extracted,
             finalConfidence := finalConfidenceOf extracted\<rparr>
      else r)"

definition bump :: "state_record \<Rightarrow> function_results \<Rightarrow> state_record \<Rightarrow> state_record" where
  "bump cur fr r =
     (if doc_id r = doc_id cur
      then r\<lparr>attempts := attempts r + 1,
             functionCallResults := functionCallResults r @ [fr],
             lastFunctionCallResult := Some fr\<rparr>
      else r)"

text \<open>
  The transition that a call of the handler commits, when it commits one. Out of \<open>initial\<close>
  it goes to \<open>awaiting_name\<close> with the empty object as extracted data, and the current
  document is as it was read. Else the results of the call have been recorded on the
  current document, the next state is the \<open>nextState\<close> of the results, and the extracted
  data are those of the results, or the empty object when the next state is \<open>completed\<close>,
  which \<open>completeRegistration\<close> commits.
\<close>

definition handlerTarget :: "state_record \<Rightarrow> function_results \<Rightarrow> state_id" where
  "handlerTarget cur results = (if stateId cur = Initial then Awaiting_name else nextState results)"

definition handlerSnapshot :: "state_record \<Rightarrow> function_results \<Rightarrow> extracted_data option" where
  "handlerSnapshot cur results =
     (if stateId cur = Initial \<or> nextState results = Completed then None
      else extractedData results)"

definition handlerPrior :: "state_record \<Rightarrow> function_results \<Rightarrow> state_record" where
  "handlerPrior cur results = (if stateId cur = Initial then cur else bump cur results cur)"

text \<open>The function results returned when geocoding fails.\<close>

definition geocodingFailedResults :: "state_analysis \<Rightarrow> state_id \<Rightarrow> message \<Rightarrow> function_results" where
  "geocodingFailedResults a currentState failureMessage =
     \<lparr>stateAnalysis = Some a, extractedData = None, shouldTransition = False,
      nextState = currentState, fr_confidence = 0, geocodingError = Some failureMessage\<rparr>"

text \<open>
  The sequence of state identifiers of a citizen; the classifier naming a state among the
  \<open>nextStates\<close> of the current one; and a sequence in which every state is followed by one
  of its \<open>nextStates\<close>.
\<close>

definition stateIds :: "db \<Rightarrow> jsstring \<Rightarrow> state_id list" where
  "stateIds d n = map stateId (states d n)"

definition followsGraph :: "llm \<Rightarrow> jsstring \<Rightarrow> state_id \<Rightarrow> bool" where
  "followsGraph ai msg st =
     (case classify ai msg st of
        Analysis a \<Rightarrow> next_state a \<in> set (nextStates st)
      | _ \<Rightarrow> True)"


text \<open>
  The agreement of the registration flag with the two fields; the fields a citizen has in
  each state of a regular registration; and the conditions on the answers of the language
  model under which the registration stays regular.
\<close>

definition registeredIffBoth :: "citizen \<Rightarrow> bool" where
  "registeredIffBoth c \<longleftrightarrow>
     (isRegistered c \<longleftrightarrow> userProvidedName c \<noteq> None \<and> citizen_village c \<noteq> None)"

definition fieldsFor :: "state_id option \<Rightarrow> citizen \<Rightarrow> bool" where
  "fieldsFor st c =
     (case st of
        Some Awaiting_village \<Rightarrow>
          \<not> isRegistered c \<and> userProvidedName c \<noteq> None \<and> citizen_village c = None
      | Some Completed \<Rightarrow>
          isRegistered c \<and> userProvidedName c \<noteq> None \<and> citizen_village c \<noteq> None
      | _ \<Rightarrow> \<not> isRegistered c \<and> userProvidedName c = None \<and> citizen_village c = None)"

definition consistent :: "db \<Rightarrow> jsstring \<Rightarrow> bool" where
  "consistent d n =
     (case citizensCollection d n of
        None \<Rightarrow> False
      | Some c \<Rightarrow> fieldsFor (map_option stateId (getCurrentState d n)) c)"

definition wellBehaved :: "llm \<Rightarrow> jsstring \<Rightarrow> state_id \<Rightarrow> bool" where
  "wellBehaved ai msg st =
     (case classify ai msg st of
        Analysis a \<Rightarrow>
          has_required_data a \<longrightarrow>
            next_state a \<in> set (nextStates st) \<and>
            (case extractRegistrationData ai msg st of
               None \<Rightarrow> True
             | Some e \<Rightarrow>
                 (st = Awaiting_name \<longrightarrow> truthy (full_name e)) \<and>
                 (st = Awaiting_village \<longrightarrow> truthy (village_name e)))
      | _ \<Rightarrow> True)"

subsection \<open>The relevance score as a weighted sum\<close>

text \<open>
  The score written as the sum of its weights: per address component the weight of the
  name match and the bonuses for district and region, then the bonus for the formatted
  address and the bonus for the precision tier.
\<close>

definition nameWeight :: "jsstring \<Rightarrow> address_component \<Rightarrow> nat" where
  "nameWeight name component =
     (if toLowerCase (long_name component) = toLowerCase name \<or>
         toLowerCase (short_name component) = toLowerCase name then 100
      else if str_includes (toLowerCase (long_name component)) (toLowerCase name) \<or>
              str_includes (toLowerCase (short_name component)) (toLowerCase name) then 50
      else 0)"

definition districtBonus :: "address_component \<Rightarrow> nat" where
  "districtBonus component =
     (if ascii ''administrative_area_level_2'' \<in> set (types component) \<and>
         str_includes (toLowerCase (long_name component)) (ascii ''pune'') then 30 else 0)"

definition regionBonus :: "address_component \<Rightarrow> nat" where
  "regionBonus component =
     (if ascii ''administrative_area_level_1'' \<in> set (types component) \<and>
         str_includes (toLowerCase (long_name component)) (ascii ''maharashtra'') then 20 else 0)"

definition addressBonus :: "geocode_candidate \<Rightarrow> jsstring \<Rightarrow> nat" where
  "addressBonus result name =
     (if str_includes (toLowerCase (formatted_address result)) (toLowerCase name) then 25 else 0)"

definition precisionBonus :: "jsstring \<Rightarrow> nat" where
  "precisionBonus t =
     (if t = ascii ''APPROXIMATE'' then 5
      else if t = ascii ''GEOMETRIC_CENTER'' then 10
      else if t = ascii ''RANGE_INTERPOLATED'' then 15
      else if t = ascii ''ROOFTOP'' then 20
      else 0)"

definition spec_relevanceScore :: "geocode_candidate \<Rightarrow> jsstring \<Rightarrow> nat" where
  "spec_relevanceScore result name =
     (\<Sum>component \<leftarrow> address_components result.
         nameWeight name component + districtBonus component + regionBonus component) +
     addressBonus result name + precisionBonus (location_type result)"

text \<open>
  The candidates of a call: the first result of every query that the provider answered
  with status \<open>OK\<close> and at least one result.
\<close>

definition firstResult :: "provider_response \<Rightarrow> geocode_candidate option" where
  "firstResult resp =
     (case resp of
        Request_failed \<Rightarrow> None
      | Response status results \<Rightarrow>
          (case results of [] \<Rightarrow> None
           | result # _ \<Rightarrow> if status = ascii ''OK'' then Some result else None))"

definition candidates :: "provider \<Rightarrow> language \<Rightarrow> jsstring list \<Rightarrow> geocode_candidate list" where
  "candidates prov l queries =
     List.map_filter (\<lambda>query. firstResult (prov query (providerLanguage l))) queries"

definition error_of :: "geocode_outcome \<Rightarrow> geocode_error option" where
  "error_of result = (case result of Success g \<Rightarrow> None | Failure f \<Rightarrow> Some (error f))"


text \<open>Every success held in the cache lies inside the boundary.\<close>

definition cacheInside :: "geocode_cache \<Rightarrow> bool" where
  "cacheInside cache \<longleftrightarrow>
     (\<forall>key e g. cache key = Some e \<longrightarrow> entry_result e = Success g \<longrightarrow>
        isLocationInPuneZP (coordinates g))"

subsection \<open>Sample data\<close>

text \<open>
  Two provider results, Saswad inside the boundary and Mumbai outside it, a provider that
  answers for them, a provider whose every request fails, and two clocks one hour apart.
\<close>

definition saswad_candidate :: geocode_candidate where
  "saswad_candidate =
     \<lparr>formatted_address = ascii ''Saswad, Maharashtra 412301, India'',
      address_components =
        [\<lparr>long_name = ascii ''Saswad'', short_name = ascii ''Saswad'',
          types = [ascii ''locality'', ascii ''political'']\<rparr>,
         \<lparr>long_name = ascii ''Pune'', short_name = ascii ''Pune'',
          types = [ascii ''administrative_area_level_2'', ascii ''political'']\<rparr>,
         \<lparr>long_name = ascii ''Maharashtra'', short_name = ascii ''MH'',
          types = [ascii ''administrative_area_level_1'', ascii ''political'']\<rparr>],
      place_id = ascii ''place-saswad'',
      geo_location = Some \<lparr>lat = 18.3437, lng = 74.0309\<rparr>,
      geo_bounds = None,
      location_type = ascii ''APPROXIMATE''\<rparr>"

definition mumbai_candidate :: geocode_candidate where
  "mumbai_candidate =
     \<lparr>formatted_address = ascii ''Mumbai, Maharashtra, India'',
      address_components =
        [\<lparr>long_name = ascii ''Mumbai'', short_name = ascii ''Mumbai'',
          types = [ascii ''locality'', ascii ''political'']\<rparr>,
         \<lparr>long_name = ascii ''Maharashtra'', short_name = ascii ''MH'',
          types = [ascii ''administrative_area_level_1'', ascii ''political'']\<rparr>],
      place_id = ascii ''place-mumbai'',
      geo_location = Some \<lparr>lat = 19.076, lng = 72.8777\<rparr>,
      geo_bounds = None,
      location_type = ascii ''APPROXIMATE''\<rparr>"

definition sample_provider :: provider where
  "sample_provider query l =
     (if query = ascii ''Saswad, Pune District, Maharashtra, India''
        then Response (ascii ''OK'') [saswad_candidate]
      else if query = ascii ''Mumbai, Maharashtra, India''
        then Response (ascii ''OK'') [mumbai_candidate]
      else if query = ascii ''Saswad, Pune, Maharashtra, India''
        then Response (ascii ''ZERO_RESULTS'') []
      else Request_failed)"

definition failing_provider :: provider where
  "failing_provider query l = Request_failed"

text \<open>
  A provider that answers every query with Mumbai first and Saswad second, and one that
  knows Saswad under a name with a slash.
\<close>

definition two_results_provider :: provider where
  "two_results_provider query l = Response (ascii ''OK'') [mumbai_candidate, saswad_candidate]"


definition sample_clock :: clock where
  "sample_clock = \<lparr>lookupTime = 1000, geocodeTime = 2000, serverTime = 3000\<rparr>"

definition later_clock :: clock where
  "later_clock = \<lparr>lookupTime = 3601000, geocodeTime = 3602000, serverTime = 3603000\<rparr>"

definition saswad_result :: geocode_success where
  "saswad_result =
     \<lparr>villageName = ascii ''Saswad'', coordinates = \<lparr>lat = 18.3437, lng = 74.0309\<rparr>,
      formattedAddress = ascii ''Saswad, Maharashtra 412301, India'',
      placeId = ascii ''place-saswad'',
      administrative = extractAdministrativeDetails saswad_candidate,
      bounds = None, locationType = ascii ''APPROXIMATE'', confidence = 180,
      geocodedAt = 2000\<rparr>"

text \<open>
  A language model with fixed answers, a WhatsApp number, and a database holding one
  citizen with one active state document.
\<close>

definition sample_llm ::
  "state_id \<Rightarrow> bool \<Rightarrow> real \<Rightarrow> (jsstring \<times> real) option \<Rightarrow> (jsstring \<times> real \<times> bool) option \<Rightarrow> llm" where
  "sample_llm next has c nm vl =
     \<lparr>classify = (\<lambda>msg st. Analysis \<lparr>current_state = st, user_intent = Providing_info,
          has_required_data = has, next_state = next, sa_confidence = c, reason = []\<rparr>),
      extractName = (\<lambda>msg. nm), extractVillage = (\<lambda>msg. vl), contextual = None\<rparr>"

definition phone :: jsstring where
  "phone = ascii ''919800000000''"

definition sample_db :: "state_id \<Rightarrow> citizen \<Rightarrow> db" where
  "sample_db sid c =
     \<lparr>citizensCollection = [phone \<mapsto> c],
      states = (\<lambda>n. [])(phone := [newStateRecord 0 sid None]),
      functionCalls = (\<lambda>n. []),
      geocodingCollection = Map.empty\<rparr>"

definition ramesh :: citizen where
  "ramesh = (newCitizen None)\<lparr>userProvidedName := Some (ascii ''Ramesh Patil'')\<rparr>"

text \<open>The data extracted from the message \<open>Ramesh Patil\<close> with a confidence of 0.9.\<close>

definition ramesh_extraction :: extracted_data where
  "ramesh_extraction =
     \<lparr>full_name = Some (ascii ''Ramesh Patil''), village_name = None, ed_confidence = 0.9,
      needs_geocoding = None, geocoding = None, ed_coordinates = None,
      validated_village = None, ed_taluka = None\<rparr>"

section \<open>Properties of message splitting\<close>

lemma splitBy_replicate:
  "sep \<noteq> [] \<Longrightarrow> hd sep \<noteq> c \<Longrightarrow> splitBy sep cur (replicate n c) = [cur @ replicate n c]"
proof (induction n arbitrary: cur)
  case 0
  then show ?case by simp
next
  case (Suc n)
  from Suc.prems have "take (length sep) (c # replicate n c) \<noteq> sep"
    by (cases sep) auto
  with Suc show ?case
    by (simp add: replicate_app_Cons_same)
qed

lemma split_replicate:
  "sep \<noteq> [] \<Longrightarrow> hd sep \<noteq> c \<Longrightarrow> split sep (replicate n c) = [replicate n c]"
  by (simp add: split_def splitBy_replicate)

lemma splitSentences_replicate:
  "\<not> isWhiteSpace c \<Longrightarrow> splitSentences cur (replicate n c) = [cur @ replicate n c]"
  by (induction n arbitrary: cur) (simp_all add: replicate_app_Cons_same)

lemma trim_replicate:
  "\<not> isWhiteSpace c \<Longrightarrow> trim (replicate n c) = replicate n c"
  by (simp add: trim_def)

lemma splitLongMessage_short:
  "length message \<le> 4000 \<Longrightarrow> splitLongMessage message = [message]"
  by (simp add: splitLongMessage_def MAX_LENGTH_def)

lemma not_isWhiteSpace_a: "\<not> isWhiteSpace 97"
  by (simp add: isWhiteSpace_def)

lemma toDigits_1_2: "toDigits 1 = [49]" "toDigits 2 = [50]"
  by (simp_all add: toDigits.simps)

text \<open>
  C10. A message of at most 4000 code units comes back as the one-element list holding it
  (\<open>splitLongMessage_short\<close>), and every part of every result is to stay within the 4096
  code units of a WhatsApp message, indicator included. The source splits a word that is
  too long only once, at 4000: on a message of 8100 letters \<open>a\<close> with no white space the
  second part is the remaining 4100 letters plus the indicator of 11 code units, 4111 in
  all, beyond the limit.
\<close>

theorem splitLongMessage_oversize_part:
  "length (splitLongMessage (replicate 8100 97) ! 1) = 4111"
  by (simp add: splitLongMessage_def MAX_LENGTH_def split_replicate splitSentences_replicate
      trim_replicate not_isWhiteSpace_a addIndicators_def partIndicator_def ascii_def
      toDigits_1_2 numeral_2_eq_2 [symmetric] upt_rec [of 0] upt_rec [of 1])

section \<open>Properties of the geocoding service\<close>

lemma scoreComponent_spec:
  "scoreComponent (toLowerCase name) score component =
     score + (nameWeight name component + districtBonus component + regionBonus component)"
  by (simp add: scoreComponent_def nameWeight_def districtBonus_def regionBonus_def Let_def)

lemma componentsLoop_spec:
  "componentsLoop (toLowerCase name) components score =
     score + (\<Sum>component \<leftarrow> components.
        nameWeight name component + districtBonus component + regionBonus component)"
  by (induction components arbitrary: score) (simp_all add: scoreComponent_spec)

lemma ascii_types_distinct:
  "ascii ''ROOFTOP'' \<noteq> ascii ''RANGE_INTERPOLATED''"
  "ascii ''ROOFTOP'' \<noteq> ascii ''GEOMETRIC_CENTER''"
  "ascii ''ROOFTOP'' \<noteq> ascii ''APPROXIMATE''"
  "ascii ''RANGE_INTERPOLATED'' \<noteq> ascii ''GEOMETRIC_CENTER''"
  "ascii ''RANGE_INTERPOLATED'' \<noteq> ascii ''APPROXIMATE''"
  "ascii ''GEOMETRIC_CENTER'' \<noteq> ascii ''APPROXIMATE''"
  by (simp_all add: ascii_def)

lemma locationTypeBonus_spec: "locationTypeBonus t = precisionBonus t"
  using ascii_types_distinct by (auto simp add: locationTypeBonus_def precisionBonus_def)

lemma calculateRelevanceScore_spec:
  "calculateRelevanceScore result name = spec_relevanceScore result name"
  by (simp add: calculateRelevanceScore_def spec_relevanceScore_def Let_def componentsLoop_spec
      addressBonus_def locationTypeBonus_spec)

lemma templatesLoop_step:
  "templatesLoop prov name l (query # rest) (best, highest) =
     templatesLoop prov name l rest
       (case firstResult (prov query (providerLanguage l)) of
          None \<Rightarrow> (best, highest)
        | Some result \<Rightarrow>
            if calculateRelevanceScore result name > highest
            then (Some result, calculateRelevanceScore result name) else (best, highest))"
  by (simp add: firstResult_def Let_def split: provider_response.splits list.splits)

lemma candidates_Nil: "candidates prov l [] = []"
  by (simp add: candidates_def)

lemma candidates_Cons:
  "candidates prov l (query # rest) =
     (case firstResult (prov query (providerLanguage l)) of
        None \<Rightarrow> candidates prov l rest
      | Some result \<Rightarrow> result # candidates prov l rest)"
  by (simp add: candidates_def split: option.splits)

lemma templatesLoop_best:
  assumes "templatesLoop prov name l queries (best0, highest0) = (best, highest)"
    and "case best0 of None \<Rightarrow> highest0 = 0
         | Some r \<Rightarrow> calculateRelevanceScore r name = highest0"
  shows "highest0 \<le> highest \<and>
         (\<forall>r \<in> set (candidates prov l queries). calculateRelevanceScore r name \<le> highest) \<and>
         (case best of None \<Rightarrow> highest = 0
          | Some r \<Rightarrow> calculateRelevanceScore r name = highest \<and>
              (r \<in> set (candidates prov l queries) \<or> best0 = Some r))"
  using assms
proof (induction queries arbitrary: best0 highest0)
  case Nil
  then show ?case by (auto simp add: candidates_Nil split: option.splits)
next
  case (Cons query rest)
  show ?case
  proof (cases "firstResult (prov query (providerLanguage l))")
    case None
    with Cons.prems have "templatesLoop prov name l rest (best0, highest0) = (best, highest)"
      by (simp add: templatesLoop_step del: templatesLoop.simps)
    from Cons.IH [OF this Cons.prems(2)] None show ?thesis
      by (auto simp add: candidates_Cons split: option.splits)
  next
    case (Some result)
    show ?thesis
    proof (cases "calculateRelevanceScore result name > highest0")
      case True
      with Some Cons.prems
      have "templatesLoop prov name l rest (Some result, calculateRelevanceScore result name)
              = (best, highest)"
        by (simp add: templatesLoop_step del: templatesLoop.simps)
      from Cons.IH [OF this] True Some show ?thesis
        by (auto simp add: candidates_Cons split: option.splits)
    next
      case False
      with Some Cons.prems
      have "templatesLoop prov name l rest (best0, highest0) = (best, highest)"
        by (simp add: templatesLoop_step del: templatesLoop.simps)
      from Cons.IH [OF this Cons.prems(2)] False Some show ?thesis
        by (auto simp add: candidates_Cons split: option.splits)
    qed
  qed
qed


lemmas sample_defs = saswad_candidate_def mumbai_candidate_def sample_provider_def
  failing_provider_def sample_clock_def later_clock_def

lemmas geocode_eval = geocodeVillage_def getCachedGeocode_def cacheGeocode_def cacheKey_def
  searchQueries_def providerLanguage_def calculateRelevanceScore_def scoreComponent_def
  locationTypeBonus_def isLocationInPuneZP_def PUNE_ZP_BOUNDS_southwest_def
  PUNE_ZP_BOUNDS_northeast_def toLowerCase_def lowerChar_def trim_def isWhiteSpace_def
  ascii_def Let_def





lemma getCachedGeocode_empty: "getCachedGeocode Map.empty now name = (None, Map.empty)"
  by (simp add: getCachedGeocode_def split: option.splits)


lemma saswad_loop:
  "templatesLoop sample_provider (ascii ''Saswad'') En (searchQueries (ascii ''Saswad'')) (None, 0)
     = (Some saswad_candidate, 180)"
  by (simp add: geocode_eval sample_defs)
lemma mumbai_loop:
  "templatesLoop sample_provider (ascii ''Mumbai'') En (searchQueries (ascii ''Mumbai'')) (None, 0)
     = (Some mumbai_candidate, 150)"
  by (simp add: geocode_eval sample_defs)
lemma failing_loop:
  "templatesLoop failing_provider name l queries (best, highest) = (best, highest)"
  by (induction queries) (simp_all add: failing_provider_def)
text \<open>
  A cache that holds only successes inside the boundary stays so, and every success that
  \<open>geocodeVillage\<close> returns, from the cache or from the provider, lies inside the boundary.
\<close>

lemma getCachedGeocode_inside:
  assumes "cacheInside cache" and "getCachedGeocode cache now name = (r, cache1)"
  shows "cacheInside cache1 \<and> (\<forall>g. r = Some (Success g) \<longrightarrow> isLocationInPuneZP (coordinates g))"
  using assms
  by (auto simp add: cacheInside_def getCachedGeocode_def Let_def
      split: option.splits if_splits)

lemma geocodeVillage_success_inside:
  assumes "cacheInside cache"
  shows "cacheInside (cache_after (geocodeVillage prov clk cache name l)) \<and>
         (\<forall>g. outcome (geocodeVillage prov clk cache name l) = Success g \<longrightarrow>
            isLocationInPuneZP (coordinates g))"
proof -
  obtain r cache1 where c: "getCachedGeocode cache (lookupTime clk) name = (r, cache1)"
    by (cases "getCachedGeocode cache (lookupTime clk) name")
  from getCachedGeocode_inside [OF assms c]
  have in1: "cacheInside cache1"
    and hit: "\<And>g. r = Some (Success g) \<Longrightarrow> isLocationInPuneZP (coordinates g)"
    by simp_all
  show ?thesis
  proof (cases r)
    case (Some cached)
    with c in1 hit show ?thesis
      by (simp add: geocodeVillage_def)
  next
    case None
    obtain b h where bh: "templatesLoop prov name l (searchQueries name) (None, 0) = (b, h)"
      by (cases "templatesLoop prov name l (searchQueries name) (None, 0)")
    from None c bh in1 show ?thesis
      by (auto simp add: geocodeVillage_def Let_def cacheGeocode_def cacheInside_def
          split: option.splits)
  qed
qed




lemma templatesLoop_skips_failed_request:
  "prov query (providerLanguage l) = Request_failed \<Longrightarrow>
     templatesLoop prov name l (query # rest) st = templatesLoop prov name l rest st"
  by (cases st) simp

lemma geocodeVillage_no_candidate:
  assumes "fst (getCachedGeocode cache (lookupTime clk) name) = None"
    and "candidates prov l (searchQueries name) = []"
  shows "geocodeVillage prov clk cache name l =
     \<lparr>outcome = Failure \<lparr>error = Village_not_found, fail_location = None,
          fail_address = None, fail_message = Msg_village_not_found l\<rparr>,
      cache_after = snd (getCachedGeocode cache (lookupTime clk) name),
      lookups = searchQueries name\<rparr>"
proof -
  obtain c1 where c1: "getCachedGeocode cache (lookupTime clk) name = (None, c1)"
    using assms(1) by (cases "getCachedGeocode cache (lookupTime clk) name") simp
  obtain b h where bh: "templatesLoop prov name l (searchQueries name) (None, 0) = (b, h)"
    by (cases "templatesLoop prov name l (searchQueries name) (None, 0)")
  from templatesLoop_best [OF bh] assms(2) have "b = None"
    by (cases b) auto
  with c1 bh show ?thesis
    by (simp add: geocodeVillage_def)
qed

text \<open>
  C8, as the code has it. A request that fails is skipped and the loop goes on with the
  next template. When the cache has no valid entry and no template gave a candidate, all
  four templates have been asked and the outcome is the failure \<open>Village not found\<close> with
  its localized message (not the service error, which only the outer handler returns).
\<close>

theorem geocodeVillage_templates_exhausted:
  "(prov query (providerLanguage l) = Request_failed \<longrightarrow>
      templatesLoop prov name l (query # rest) st = templatesLoop prov name l rest st) \<and>
   (fst (getCachedGeocode cache (lookupTime clk) name) = None \<and>
    candidates prov l (searchQueries name) = [] \<longrightarrow>
      outcome (geocodeVillage prov clk cache name l) =
        Failure \<lparr>error = Village_not_found, fail_location = None, fail_address = None,
          fail_message = Msg_village_not_found l\<rparr> \<and>
      lookups (geocodeVillage prov clk cache name l) = searchQueries name)"
  by (simp add: templatesLoop_skips_failed_request geocodeVillage_no_candidate)

lemma failing_candidates: "candidates failing_provider l queries = []"
  by (induction queries) (simp_all add: candidates_Nil candidates_Cons firstResult_def
      failing_provider_def)

theorem geocodeVillage_templates_exhausted_witness:
  "outcome (geocodeVillage failing_provider sample_clock Map.empty (ascii ''Saswad'') Mr) =
     Failure \<lparr>error = Village_not_found, fail_location = None, fail_address = None,
       fail_message = Msg_village_not_found Mr\<rparr> \<and>
   lookups (geocodeVillage failing_provider sample_clock Map.empty (ascii ''Saswad'') Mr) =
     searchQueries (ascii ''Saswad'')"
  using geocodeVillage_templates_exhausted [of failing_provider "ascii ''q''" Mr
      "ascii ''Saswad''" "[]" "(None, 0)" Map.empty sample_clock]
  by (simp add: failing_candidates getCachedGeocode_empty)

text \<open>
  Against C8 as stated: with a provider whose every request fails, the outcome is
  \<open>Village not found\<close>, not the service error.
\<close>

theorem geocodeVillage_exhausted_not_service_error:
  "error_of (outcome (geocodeVillage failing_provider sample_clock Map.empty
      (ascii ''Saswad'') En)) = Some Village_not_found \<and>
   error_of (outcome (geocodeVillage failing_provider sample_clock Map.empty
      (ascii ''Saswad'') En)) \<noteq> Some Geocoding_service_error"
  by (simp add: geocodeVillage_def getCachedGeocode_empty failing_loop error_of_def)

lemma saswad_score: "calculateRelevanceScore saswad_candidate (ascii ''Saswad'') = 180"
  by (simp add: geocode_eval sample_defs)

lemma saswad_fields:
  "geo_location saswad_candidate = Some \<lparr>lat = 18.3437, lng = 74.0309\<rparr>"
  "formatted_address saswad_candidate = ascii ''Saswad, Maharashtra 412301, India''"
  "place_id saswad_candidate = ascii ''place-saswad''"
  "geo_bounds saswad_candidate = None"
  "location_type saswad_candidate = ascii ''APPROXIMATE''"
  by (simp_all add: saswad_candidate_def)

lemma saswad_first_call:
  "outcome (geocodeVillage sample_provider sample_clock Map.empty (ascii ''Saswad'') En)
     = Success saswad_result"
  "lookups (geocodeVillage sample_provider sample_clock Map.empty (ascii ''Saswad'') En)
     = searchQueries (ascii ''Saswad'')"
  by (simp_all add: geocodeVillage_def getCachedGeocode_empty saswad_loop Let_def
      saswad_fields saswad_result_def sample_clock_def isLocationInPuneZP_def
      PUNE_ZP_BOUNDS_southwest_def PUNE_ZP_BOUNDS_northeast_def)

lemma mumbai_fields:
  "geo_location mumbai_candidate = Some \<lparr>lat = 19.076, lng = 72.8777\<rparr>"
  "formatted_address mumbai_candidate = ascii ''Mumbai, Maharashtra, India''"
  by (simp_all add: mumbai_candidate_def)

lemma mumbai_call:
  "geocodeVillage sample_provider clk Map.empty (ascii ''Mumbai'') En =
     \<lparr>outcome = Failure \<lparr>error = Village_not_in_Pune_ZP,
          fail_location = Some \<lparr>lat = 19.076, lng = 72.8777\<rparr>,
          fail_address = Some (ascii ''Mumbai, Maharashtra, India''),
          fail_message = Msg_not_in_pune_zp En\<rparr>,
      cache_after = Map.empty, lookups = searchQueries (ascii ''Mumbai'')\<rparr>"
  by (simp add: geocodeVillage_def getCachedGeocode_empty mumbai_loop mumbai_fields
      isLocationInPuneZP_def PUNE_ZP_BOUNDS_southwest_def PUNE_ZP_BOUNDS_northeast_def)

text \<open>
  What \<open>geocodeVillage\<close> returns when the cache gives nothing is decided by the candidate
  that the loop over the templates kept.
\<close>

lemma geocodeVillage_from_loop:
  assumes "fst (getCachedGeocode cache (lookupTime clk) name) = None"
  shows "outcome (geocodeVillage prov clk cache name l) =
     (case fst (templatesLoop prov name l (searchQueries name) (None, 0)) of
        None \<Rightarrow>
          Failure \<lparr>error = Village_not_found, fail_location = None, fail_address = None,
            fail_message = Msg_village_not_found l\<rparr>
      | Some best \<Rightarrow>
          (case geo_location best of
             None \<Rightarrow>
               Failure \<lparr>error = Geocoding_service_error, fail_location = None,
                 fail_address = None, fail_message = Msg_geocoding_technical_issue l\<rparr>
           | Some loc \<Rightarrow>
               if isLocationInPuneZP loc then
                 Success \<lparr>villageName = name, coordinates = loc,
                   formattedAddress = formatted_address best, placeId = place_id best,
                   administrative = extractAdministrativeDetails best,
                   bounds = geo_bounds best, locationType = location_type best,
                   confidence = calculateRelevanceScore best name,
                   geocodedAt = geocodeTime clk\<rparr>
               else
                 Failure \<lparr>error = Village_not_in_Pune_ZP, fail_location = Some loc,
                   fail_address = Some (formatted_address best),
                   fail_message = Msg_not_in_pune_zp l\<rparr>))"
proof -
  obtain c1 where c1: "getCachedGeocode cache (lookupTime clk) name = (None, c1)"
    using assms by (cases "getCachedGeocode cache (lookupTime clk) name") simp
  obtain b h where bh: "templatesLoop prov name l (searchQueries name) (None, 0) = (b, h)"
    by (cases "templatesLoop prov name l (searchQueries name) (None, 0)")
  from templatesLoop_best [OF bh]
  have "case b of None \<Rightarrow> True | Some r \<Rightarrow> calculateRelevanceScore r name = h"
    by (auto split: option.splits)
  with c1 bh show ?thesis
    by (simp add: geocodeVillage_def Let_def split: option.splits)
qed

text \<open>
  C9, as the code has it. \<open>calculateRelevanceScore\<close> is the weighted sum: for each address
  component 100 when its long or short name equals the queried name without regard to
  case, else 50 when one of them contains it, plus 30 when the component is of the second
  administrative level and its name contains \<open>pune\<close>, plus 20 when it is of the first level
  and its name contains \<open>maharashtra\<close>; 25 when the formatted address contains the query;
  and 5, 10, 15 or 20 for the precision tiers approximate, geometric centre, interpolated
  and rooftop. The candidates are the first results of the templates that the provider
  answered with \<open>OK\<close>; the later results of a response are not scored. Over the four
  templates the loop keeps a candidate of the highest score among them: no candidate
  scores more than the kept score, and the kept candidate is one of them and has it. When
  the cache gives nothing, the outcome of \<open>geocodeVillage\<close> is decided by the kept candidate:
  without one the village is not found; a kept candidate outside the boundary is refused;
  one inside it is returned with its address, place, administrative details and location
  type, and with its score as the confidence.
\<close>

theorem relevance_score_and_best_candidate:
  "calculateRelevanceScore result name = spec_relevanceScore result name \<and>
   (\<forall>r \<in> set (candidates prov l (searchQueries name)).
      calculateRelevanceScore r name
        \<le> snd (templatesLoop prov name l (searchQueries name) (None, 0))) \<and>
   (case fst (templatesLoop prov name l (searchQueries name) (None, 0)) of
      None \<Rightarrow> snd (templatesLoop prov name l (searchQueries name) (None, 0)) = 0
    | Some best \<Rightarrow>
        best \<in> set (candidates prov l (searchQueries name)) \<and>
        calculateRelevanceScore best name
          = snd (templatesLoop prov name l (searchQueries name) (None, 0))) \<and>
   (fst (getCachedGeocode cache (lookupTime clk) name) = None \<longrightarrow>
      outcome (geocodeVillage prov clk cache name l) =
        (case fst (templatesLoop prov name l (searchQueries name) (None, 0)) of
           None \<Rightarrow>
             Failure \<lparr>error = Village_not_found, fail_location = None, fail_address = None,
               fail_message = Msg_village_not_found l\<rparr>
         | Some best \<Rightarrow>
             (case geo_location best of
                None \<Rightarrow>
                  Failure \<lparr>error = Geocoding_service_error, fail_location = None,
                    fail_address = None, fail_message = Msg_geocoding_technical_issue l\<rparr>
              | Some loc \<Rightarrow>
                  if isLocationInPuneZP loc then
                    Success \<lparr>villageName = name, coordinates = loc,
                      formattedAddress = formatted_address best, placeId = place_id best,
                      administrative = extractAdministrativeDetails best,
                      bounds = geo_bounds best, locationType = location_type best,
                      confidence = calculateRelevanceScore best name,
                      geocodedAt = geocodeTime clk\<rparr>
                  else
                    Failure \<lparr>error = Village_not_in_Pune_ZP, fail_location = Some loc,
                      fail_address = Some (formatted_address best),
                      fail_message = Msg_not_in_pune_zp l\<rparr>)))"
proof (intro conjI impI)
  show "calculateRelevanceScore result name = spec_relevanceScore result name"
    by (rule calculateRelevanceScore_spec)
  obtain b h where bh: "templatesLoop prov name l (searchQueries name) (None, 0) = (b, h)"
    by (cases "templatesLoop prov name l (searchQueries name) (None, 0)")
  from templatesLoop_best [OF bh]
  show "\<forall>r \<in> set (candidates prov l (searchQueries name)).
      calculateRelevanceScore r name
        \<le> snd (templatesLoop prov name l (searchQueries name) (None, 0))"
    by (simp add: bh)
  from templatesLoop_best [OF bh]
  show "case fst (templatesLoop prov name l (searchQueries name) (None, 0)) of
      None \<Rightarrow> snd (templatesLoop prov name l (searchQueries name) (None, 0)) = 0
    | Some best \<Rightarrow>
        best \<in> set (candidates prov l (searchQueries name)) \<and>
        calculateRelevanceScore best name
          = snd (templatesLoop prov name l (searchQueries name) (None, 0))"
    by (auto simp add: bh split: option.splits)
next
  assume "fst (getCachedGeocode cache (lookupTime clk) name) = None"
  then show "outcome (geocodeVillage prov clk cache name l) =
        (case fst (templatesLoop prov name l (searchQueries name) (None, 0)) of
           None \<Rightarrow>
             Failure \<lparr>error = Village_not_found, fail_location = None, fail_address = None,
               fail_message = Msg_village_not_found l\<rparr>
         | Some best \<Rightarrow>
             (case geo_location best of
                None \<Rightarrow>
                  Failure \<lparr>error = Geocoding_service_error, fail_location = None,
                    fail_address = None, fail_message = Msg_geocoding_technical_issue l\<rparr>
              | Some loc \<Rightarrow>
                  if isLocationInPuneZP loc then
                    Success \<lparr>villageName = name, coordinates = loc,
                      formattedAddress = formatted_address best, placeId = place_id best,
                      administrative = extractAdministrativeDetails best,
                      bounds = geo_bounds best, locationType = location_type best,
                      confidence = calculateRelevanceScore best name,
                      geocodedAt = geocodeTime clk\<rparr>
                  else
                    Failure \<lparr>error = Village_not_in_Pune_ZP, fail_location = Some loc,
                      fail_address = Some (formatted_address best),
                      fail_message = Msg_not_in_pune_zp l\<rparr>))"
    by (rule geocodeVillage_from_loop)
qed

theorem relevance_score_and_best_candidate_witness:
  "spec_relevanceScore saswad_candidate (ascii ''Saswad'') = 180 \<and>
   saswad_candidate \<in> set (candidates sample_provider En (searchQueries (ascii ''Saswad''))) \<and>
   fst (templatesLoop sample_provider (ascii ''Saswad'') En (searchQueries (ascii ''Saswad''))
     (None, 0)) = Some saswad_candidate \<and>
   outcome (geocodeVillage sample_provider sample_clock Map.empty (ascii ''Saswad'') En) =
     Success saswad_result"
  using relevance_score_and_best_candidate [of saswad_candidate "ascii ''Saswad''"
      sample_provider En Map.empty sample_clock] saswad_score
  by (simp add: saswad_loop getCachedGeocode_empty saswad_fields saswad_result_def
      sample_clock_def isLocationInPuneZP_def PUNE_ZP_BOUNDS_southwest_def
      PUNE_ZP_BOUNDS_northeast_def)

lemma two_results_scores:
  "calculateRelevanceScore mumbai_candidate (ascii ''Saswad'') = 25"
  by (simp add: geocode_eval sample_defs)

lemma two_results_loop:
  "templatesLoop two_results_provider (ascii ''Saswad'') En (searchQueries (ascii ''Saswad''))
     (None, 0) = (Some mumbai_candidate, 25)"
  by (simp add: searchQueries_def two_results_provider_def two_results_scores)

text \<open>
  Against C9 as stated: a response that lists Mumbai first and Saswad second. Saswad scores
  180 for the name \<open>Saswad\<close> and Mumbai 25, but only the first result of a response is scored:
  the loop keeps Mumbai and \<open>geocodeVillage\<close> refuses the village as outside the boundary.
\<close>

theorem later_result_is_not_scored:
  "two_results_provider (ascii ''Saswad, Pune District, Maharashtra, India'')
      (providerLanguage En) = Response (ascii ''OK'') [mumbai_candidate, saswad_candidate] \<and>
   calculateRelevanceScore mumbai_candidate (ascii ''Saswad'') = 25 \<and>
   calculateRelevanceScore saswad_candidate (ascii ''Saswad'') = 180 \<and>
   templatesLoop two_results_provider (ascii ''Saswad'') En (searchQueries (ascii ''Saswad''))
     (None, 0) = (Some mumbai_candidate, 25) \<and>
   error_of (outcome (geocodeVillage two_results_provider sample_clock Map.empty
      (ascii ''Saswad'') En)) = Some Village_not_in_Pune_ZP"
  by (simp add: two_results_provider_def two_results_scores saswad_score two_results_loop
      geocodeVillage_def getCachedGeocode_empty mumbai_fields error_of_def
      isLocationInPuneZP_def PUNE_ZP_BOUNDS_southwest_def PUNE_ZP_BOUNDS_northeast_def)














section \<open>Properties of the registration flow\<close>

subsection \<open>Store operations\<close>

lemma update_fields [simp]:
  "citizensCollection (updateStateWithFunctionResults d n cur fr) = citizensCollection d"
  "functionCalls (updateStateWithFunctionResults d n cur fr) = functionCalls d"
  "geocodingCollection (updateStateWithFunctionResults d n cur fr) = geocodingCollection d"
  "m \<noteq> n \<Longrightarrow> states (updateStateWithFunctionResults d n cur fr) m = states d m"
  by (simp_all add: updateStateWithFunctionResults_def)

lemma update_committed [simp]:
  "committed (updateStateWithFunctionResults d n cur fr) m = committed d m"
  by (simp add: committed_def updateStateWithFunctionResults_def comp_def)

lemma store_fields [simp]:
  "citizensCollection (storeFunctionCallResultInSubcollection d n sid fr) = citizensCollection d"
  "states (storeFunctionCallResultInSubcollection d n sid fr) = states d"
  "geocodingCollection (storeFunctionCallResultInSubcollection d n sid fr) = geocodingCollection d"
  by (simp_all add: storeFunctionCallResultInSubcollection_def)

lemma store_committed [simp]:
  "committed (storeFunctionCallResultInSubcollection d n sid fr) m = committed d m"
  by (simp add: committed_def)

lemma cache_update_fields [simp]:
  "committed (d\<lparr>geocodingCollection := c\<rparr>) m = committed d m"
  by (simp add: committed_def)

subsection \<open>The handler by cases\<close>

lemma handler_unfold:
  "processRegistrationWithFunctionCalling ai prov clk d n msg l citizenData =
     (let (d1, currentState) = startState d n
      in if stateId currentState = Initial then
           (completeStateTransition d1 n currentState None Awaiting_name,
            \<lparr>shouldContinue = False,
             response = Msg_welcome l (whatsappDisplayName citizenData),
             reply_functionCallResults = None\<rparr>)
         else
           (let (results, cache1) =
                  processRegistrationWithFunctions ai prov clk (geocodingCollection d1) msg
                    (stateId currentState) l;
                d2 = d1\<lparr>geocodingCollection := cache1\<rparr>
            in case geocodingError results of
                 Some failureMessage \<Rightarrow>
                   (updateStateWithFunctionResults d2 n currentState results,
                    \<lparr>shouldContinue = False, response = failureMessage,
                     reply_functionCallResults = Some results\<rparr>)
               | None \<Rightarrow>
                   (let d3 = updateStateWithFunctionResults d2 n currentState results;
                        d4 = storeFunctionCallResultInSubcollection d3 n
                               (stateId currentState) results
                    in if passesGate results then
                         (let e = the (extractedData results);
                              d5 = updateCitizenDataFromFunctions d4 n
                                     (stateId currentState) e
                          in if nextState results = Completed then
                               (completeRegistration d5 n currentState,
                                \<lparr>shouldContinue = True,
                                 response = Msg_registration_complete l
                                   (or_else (userProvidedName citizenData)
                                      (whatsappDisplayName citizenData))
                                   (or_else (validated_village e) (village_name e)),
                                 reply_functionCallResults = Some results\<rparr>)
                             else
                               (completeStateTransition d5 n currentState (Some e)
                                  (nextState results),
                                \<lparr>shouldContinue = False,
                                 response = (case contextual ai of
                                               Some text \<Rightarrow> text
                                             | None \<Rightarrow> Msg_default_prompt (nextState results) l),
                                 reply_functionCallResults = Some results\<rparr>))
                       else
                         (d4,
                          \<lparr>shouldContinue = False,
                           response = (case contextual ai of
                                         Some text \<Rightarrow> text
                                       | None \<Rightarrow> Msg_retry_prompt (stateId currentState) l),
                           reply_functionCallResults = Some results\<rparr>))))"
  by (simp add: processRegistrationWithFunctionCalling_def startState_def)

lemma handler_initial:
  assumes "startState d n = (d1, cur)" and "stateId cur = Initial"
  shows "processRegistrationWithFunctionCalling ai prov clk d n msg l citizenData =
     (completeStateTransition d1 n cur None Awaiting_name,
      \<lparr>shouldContinue = False, response = Msg_welcome l (whatsappDisplayName citizenData),
       reply_functionCallResults = None\<rparr>)"
  using assms by (simp add: handler_unfold)

lemma handler_geocoding_error:
  assumes "startState d n = (d1, cur)" and "stateId cur \<noteq> Initial"
    and "processRegistrationWithFunctions ai prov clk (geocodingCollection d1) msg (stateId cur) l
           = (fr, cache1)"
    and "geocodingError fr = Some m"
  shows "processRegistrationWithFunctionCalling ai prov clk d n msg l citizenData =
     (updateStateWithFunctionResults (d1\<lparr>geocodingCollection := cache1\<rparr>) n cur fr,
      \<lparr>shouldContinue = False, response = m, reply_functionCallResults = Some fr\<rparr>)"
  using assms by (simp add: handler_unfold)

lemma handler_clarify:
  assumes "startState d n = (d1, cur)" and "stateId cur \<noteq> Initial"
    and "processRegistrationWithFunctions ai prov clk (geocodingCollection d1) msg (stateId cur) l
           = (fr, cache1)"
    and "geocodingError fr = None" and "\<not> passesGate fr"
  shows "processRegistrationWithFunctionCalling ai prov clk d n msg l citizenData =
     (storeFunctionCallResultInSubcollection
        (updateStateWithFunctionResults (d1\<lparr>geocodingCollection := cache1\<rparr>) n cur fr)
        n (stateId cur) fr,
      \<lparr>shouldContinue = False,
       response = (case contextual ai of Some text \<Rightarrow> text
                   | None \<Rightarrow> Msg_retry_prompt (stateId cur) l),
       reply_functionCallResults = Some fr\<rparr>)"
  using assms by (simp add: handler_unfold Let_def)

lemma handler_complete:
  assumes "startState d n = (d1, cur)" and "stateId cur \<noteq> Initial"
    and "processRegistrationWithFunctions ai prov clk (geocodingCollection d1) msg (stateId cur) l
           = (fr, cache1)"
    and "geocodingError fr = None" and "passesGate fr" and "nextState fr = Completed"
  shows "fst (processRegistrationWithFunctionCalling ai prov clk d n msg l citizenData) =
     completeRegistration
       (updateCitizenDataFromFunctions
          (storeFunctionCallResultInSubcollection
             (updateStateWithFunctionResults (d1\<lparr>geocodingCollection := cache1\<rparr>) n cur fr)
             n (stateId cur) fr)
          n (stateId cur) (the (extractedData fr)))
       n cur"
  using assms by (simp add: handler_unfold Let_def)

lemma handler_advance:
  assumes "startState d n = (d1, cur)" and "stateId cur \<noteq> Initial"
    and "processRegistrationWithFunctions ai prov clk (geocodingCollection d1) msg (stateId cur) l
           = (fr, cache1)"
    and "geocodingError fr = None" and "passesGate fr" and "nextState fr \<noteq> Completed"
  shows "fst (processRegistrationWithFunctionCalling ai prov clk d n msg l citizenData) =
     completeStateTransition
       (updateCitizenDataFromFunctions
          (storeFunctionCallResultInSubcollection
             (updateStateWithFunctionResults (d1\<lparr>geocodingCollection := cache1\<rparr>) n cur fr)
             n (stateId cur) fr)
          n (stateId cur) (the (extractedData fr)))
       n cur (Some (the (extractedData fr))) (nextState fr)"
  using assms by (simp add: handler_unfold Let_def)

subsection \<open>What the classification step returns\<close>

lemma results_gate:
  assumes "processRegistrationWithFunctions ai prov clk cache msg st l = (fr, cache1)"
    and "passesGate fr"
  shows "classifierAccepts ai msg st \<and> extractRegistrationData ai msg st \<noteq> None \<and>
         geocodingError fr = None \<and>
         (\<exists>a. classify ai msg st = Analysis a \<and> nextState fr = next_state a)"
  using assms
  by (auto simp add: processRegistrationWithFunctions_def passesGate_def classifierAccepts_def
      analysedResults_def failedResults_def Let_def
      split: classifier_result.splits option.splits if_splits geocode_outcome.splits)

lemma results_geocoding_error:
  assumes "processRegistrationWithFunctions ai prov clk cache msg st l = (fr, cache1)"
    and "geocodingError fr = Some m"
  shows "\<not> passesGate fr \<and> extractedData fr = None \<and> st = Awaiting_village"
  using assms
  by (auto simp add: processRegistrationWithFunctions_def passesGate_def
      analysedResults_def failedResults_def Let_def
      split: classifier_result.splits option.splits if_splits geocode_outcome.splits)

subsection \<open>Active state documents\<close>

lemma current_is_only_active:
  assumes "getCurrentState d n = Some cur" and "length (filter isActive (states d n)) \<le> 1"
  shows "filter isActive (states d n) = [cur]"
proof (cases "filter isActive (states d n)")
  case Nil
  with assms(1) show ?thesis by (simp add: getCurrentState_def)
next
  case (Cons r rs)
  with assms(2) have "rs = []" by simp
  with Cons assms(1) show ?thesis by (simp add: getCurrentState_def)
qed

lemma only_active_doc_id:
  assumes "filter isActive rs = [cur]" and "r \<in> set rs" and "isActive r"
  shows "doc_id r = doc_id cur"
proof -
  from assms(2,3) have "r \<in> set (filter isActive rs)" by simp
  with assms(1) show ?thesis by simp
qed

lemma states_completeStateTransition:
  "states (completeStateTransition d n cur data next) =
     (states d)(n := map (deactivate cur data) (states d n) @
        [newStateRecord (length (states d n)) next (Some (stateId cur))])"
  by (simp add: completeStateTransition_def Let_def deactivate_def [abs_def])

lemma filter_deactivate:
  assumes "\<forall>r \<in> set rs. isActive r \<longrightarrow> doc_id r = doc_id cur"
  shows "filter isActive (map (deactivate cur data) rs) = []"
  using assms by (auto simp add: filter_empty_conv deactivate_def)

lemma active_after_transition:
  assumes "\<forall>r \<in> set (states d n). isActive r \<longrightarrow> doc_id r = doc_id cur"
  shows "filter isActive (states (completeStateTransition d n cur data next) n) =
           [newStateRecord (length (states d n)) next (Some (stateId cur))]"
  using filter_deactivate [OF assms]
  by (simp add: states_completeStateTransition newStateRecord_def)

lemma deactivated_after_transition:
  assumes "getCurrentState d n = Some cur"
  shows "\<exists>i < length (states d n). states d n ! i = cur \<and>
           states (completeStateTransition d n cur data next) n ! i =
             cur\<lparr>isActive := False, isCompleted := True, stamped_extractedData := data,
                 finalConfidence := finalConfidenceOf data\<rparr>"
proof -
  from assms obtain r rs where "filter isActive (states d n) = r # rs" "cur = last (r # rs)"
    by (auto simp add: getCurrentState_def split: list.splits)
  then have "cur \<in> set (filter isActive (states d n))"
    using last_in_set [of "r # rs"] by simp
  then have "cur \<in> set (states d n)" by simp
  then obtain i where i: "i < length (states d n)" "states d n ! i = cur"
    by (auto simp add: in_set_conv_nth)
  then have "states (completeStateTransition d n cur data next) n ! i =
             cur\<lparr>isActive := False, isCompleted := True, stamped_extractedData := data,
                 finalConfidence := finalConfidenceOf data\<rparr>"
    by (simp add: states_completeStateTransition nth_append deactivate_def)
  with i show ?thesis by blast
qed

lemma bump_fields [simp]:
  "isActive (bump cur fr r) = isActive r"
  "doc_id (bump cur fr r) = doc_id r"
  "stateId (bump cur fr r) = stateId r"
  by (simp_all add: bump_def)

lemma states_updateState:
  "states (updateStateWithFunctionResults d n cur fr) =
     (states d)(n := map (bump cur fr) (states d n))"
  by (simp add: updateStateWithFunctionResults_def bump_def [abs_def])

lemma filter_bump: "filter isActive (map (bump cur fr) rs) = map (bump cur fr) (filter isActive rs)"
  by (induction rs) simp_all

lemma updateCitizen_fields [simp]:
  "states (updateCitizenDataFromFunctions d n sid e) = states d"
  "functionCalls (updateCitizenDataFromFunctions d n sid e) = functionCalls d"
  "geocodingCollection (updateCitizenDataFromFunctions d n sid e) = geocodingCollection d"
  by (simp_all add: updateCitizenDataFromFunctions_def Let_def split: option.splits)

lemma completeStateTransition_fields [simp]:
  "citizensCollection (completeStateTransition d n cur data next) = citizensCollection d"
  "functionCalls (completeStateTransition d n cur data next) = functionCalls d"
  "geocodingCollection (completeStateTransition d n cur data next) = geocodingCollection d"
  by (simp_all add: completeStateTransition_def Let_def)

lemma states_completeRegistration:
  "states (completeRegistration d n cur) =
     (case citizensCollection d n of
        None \<Rightarrow> states d
      | Some c \<Rightarrow> states (completeStateTransition d n cur None Completed))"
  by (simp add: completeRegistration_def states_completeStateTransition split: option.splits)

lemma startState_props:
  assumes "length (filter isActive (states d n)) \<le> 1" and "startState d n = (d1, cur)"
  shows "filter isActive (states d1 n) = [cur]"
    and "getCurrentState d1 n = Some cur"
    and "citizensCollection d1 = citizensCollection d"
    and "geocodingCollection d1 = geocodingCollection d"
    and "functionCalls d1 = functionCalls d"
    and "m \<noteq> n \<Longrightarrow> states d1 m = states d m"
proof -
  show "filter isActive (states d1 n) = [cur]"
  proof (cases "getCurrentState d n")
    case None
    then have "filter isActive (states d n) = []"
      by (simp add: getCurrentState_def split: list.splits)
    with None assms(2) show ?thesis
      by (auto simp add: startState_def createStateRecord_def Let_def newStateRecord_def)
  next
    case (Some st)
    with assms(2) have "d1 = d" "cur = st" by (simp_all add: startState_def)
    with Some assms(1) show ?thesis by (simp add: current_is_only_active)
  qed
  then show "getCurrentState d1 n = Some cur"
    by (simp add: getCurrentState_def)
  show "citizensCollection d1 = citizensCollection d"
    "geocodingCollection d1 = geocodingCollection d"
    "functionCalls d1 = functionCalls d"
    "m \<noteq> n \<Longrightarrow> states d1 m = states d m"
    using assms(2)
    by (auto simp add: startState_def createStateRecord_def Let_def split: option.splits)
qed

text \<open>The states of the citizen after a call, by the branch the call takes.\<close>

lemma handler_states:
  assumes "startState d n = (d1, cur)"
  shows "(stateId cur = Initial \<and>
          states (fst (processRegistrationWithFunctionCalling ai prov clk d n msg l c)) =
           (states d1)(n := map (deactivate cur None) (states d1 n) @
              [newStateRecord (length (states d1 n)) Awaiting_name (Some (stateId cur))])) \<or>
         (\<exists>fr. states (fst (processRegistrationWithFunctionCalling ai prov clk d n msg l c)) =
            (states d1)(n := map (bump cur fr) (states d1 n))) \<or>
         (\<exists>fr data next.
            states (fst (processRegistrationWithFunctionCalling ai prov clk d n msg l c)) =
              (states d1)(n := map (deactivate cur data) (map (bump cur fr) (states d1 n)) @
                 [newStateRecord (length (states d1 n)) next (Some (stateId cur))]) \<and>
            (\<exists>a. classify ai msg (stateId cur) = Analysis a \<and> next = next_state a))"
proof (cases "stateId cur = Initial")
  case True
  from handler_initial [OF assms True] True show ?thesis
    by (simp add: states_completeStateTransition)
next
  case False
  obtain fr cache1 where fr:
    "processRegistrationWithFunctions ai prov clk (geocodingCollection d1) msg (stateId cur) l
       = (fr, cache1)"
    by (cases "processRegistrationWithFunctions ai prov clk (geocodingCollection d1) msg
        (stateId cur) l")
  show ?thesis
  proof (cases "geocodingError fr")
    case (Some m)
    from handler_geocoding_error [OF assms False fr Some]
    have "states (fst (processRegistrationWithFunctionCalling ai prov clk d n msg l c))
        = (states d1)(n := map (bump cur fr) (states d1 n))"
      by (simp add: states_updateState)
    then show ?thesis by blast
  next
    case None
    show ?thesis
    proof (cases "passesGate fr")
      case False
      from handler_clarify [OF assms \<open>stateId cur \<noteq> Initial\<close> fr None False]
      have "states (fst (processRegistrationWithFunctionCalling ai prov clk d n msg l c))
          = (states d1)(n := map (bump cur fr) (states d1 n))"
        by (simp add: states_updateState)
      then show ?thesis by blast
    next
      case True
      from results_gate [OF fr True] obtain a where
        a: "classify ai msg (stateId cur) = Analysis a" "nextState fr = next_state a"
        by blast
      show ?thesis
      proof (cases "nextState fr = Completed")
        case True
        let ?D = "updateCitizenDataFromFunctions
          (storeFunctionCallResultInSubcollection
             (updateStateWithFunctionResults (d1\<lparr>geocodingCollection := cache1\<rparr>) n cur fr)
             n (stateId cur) fr)
          n (stateId cur) (the (extractedData fr))"
        have D: "states ?D = (states d1)(n := map (bump cur fr) (states d1 n))"
          by (simp add: states_updateState)
        from handler_complete [OF assms \<open>stateId cur \<noteq> Initial\<close> fr None \<open>passesGate fr\<close> True]
        have H: "fst (processRegistrationWithFunctionCalling ai prov clk d n msg l c) =
            completeRegistration ?D n cur" .
        show ?thesis
        proof (cases "citizensCollection ?D n")
          case None
          then have "states (fst (processRegistrationWithFunctionCalling ai prov clk d n msg l c))
              = (states d1)(n := map (bump cur fr) (states d1 n))"
            by (simp only: H states_completeRegistration D option.case)
          then show ?thesis by blast
        next
          case (Some x)
          then have "states (fst (processRegistrationWithFunctionCalling ai prov clk d n msg l c))
              = (states d1)(n := map (deactivate cur None) (map (bump cur fr) (states d1 n)) @
                 [newStateRecord (length (states d1 n)) Completed (Some (stateId cur))])"
            by (simp add: H states_completeRegistration states_completeStateTransition
                states_updateState)
          with a True show ?thesis by auto
        qed
      next
        case False
        from handler_advance [OF assms \<open>stateId cur \<noteq> Initial\<close> fr None \<open>passesGate fr\<close> False]
        have "states (fst (processRegistrationWithFunctionCalling ai prov clk d n msg l c))
              = (states d1)(n := map (deactivate cur (Some (the (extractedData fr))))
                   (map (bump cur fr) (states d1 n)) @
                 [newStateRecord (length (states d1 n)) (nextState fr) (Some (stateId cur))])"
          by (simp add: states_completeStateTransition states_updateState)
        with a show ?thesis by blast
      qed
    qed
  qed
qed

lemma handler_keeps_one_active:
  assumes "length (filter isActive (states d m)) \<le> 1"
  shows "length (filter isActive
           (states (fst (processRegistrationWithFunctionCalling ai prov clk d n msg l c)) m)) \<le> 1"
proof (cases "m = n")
  case True
  obtain d1 cur where st: "startState d n = (d1, cur)"
    by (cases "startState d n")
  from startState_props(1) [OF _ st] assms True
  have act: "filter isActive (states d1 n) = [cur]" by simp
  then have ids: "\<forall>r \<in> set (states d1 n). isActive r \<longrightarrow> doc_id r = doc_id cur"
    using only_active_doc_id by blast
  then have ids': "\<forall>r \<in> set (map (bump cur fr) (states d1 n)).
      isActive r \<longrightarrow> doc_id r = doc_id cur" for fr
    by auto
  from handler_states [OF st, of ai prov clk msg l c] True act
    filter_deactivate [OF ids] filter_deactivate [OF ids']
  show ?thesis
    by (auto simp add: filter_bump newStateRecord_def)
next
  case False
  obtain d1 cur where st: "startState d n = (d1, cur)"
    by (cases "startState d n")
  then have "states d1 m = states d m"
    using False by (auto simp add: startState_def createStateRecord_def Let_def split: option.splits)
  with handler_states [OF st, of ai prov clk msg l c] False assms
  show ?thesis by auto
qed

text \<open>
  Creating a citizen keeps the number of active documents too, when a number without a
  citizen's document has no state documents.
\<close>

lemma getOrCreateCitizen_keeps_one_active:
  assumes "length (filter isActive (states d m)) \<le> 1"
    and "citizensCollection d n = None \<Longrightarrow> states d n = []"
  shows "length (filter isActive (states (fst (getOrCreateCitizen d n displayName)) m)) \<le> 1"
  using assms
  by (auto simp add: getOrCreateCitizen_def createStateRecord_def Let_def newStateRecord_def
      split: option.splits)

lemma sample_current:
  "getCurrentState (sample_db sid c) phone = Some (newStateRecord 0 sid None)"
  by (simp add: getCurrentState_def sample_db_def newStateRecord_def)

lemma sample_one_active:
  "length (filter isActive (states (sample_db sid c) phone)) \<le> 1"
  by (simp add: sample_db_def newStateRecord_def)

lemma startState_current:
  "getCurrentState d n = Some cur \<Longrightarrow> startState d n = (d, cur)"
  by (simp add: startState_def)

lemma getCurrentState_bump:
  assumes "getCurrentState d n = Some cur" and "states d' = states d"
  shows "getCurrentState (updateStateWithFunctionResults d' n cur fr) n = Some (bump cur fr cur)"
proof -
  from assms(1) obtain r rs where f: "filter isActive (states d n) = r # rs"
    and c: "cur = last (r # rs)"
    by (auto simp add: getCurrentState_def split: list.splits)
  then show ?thesis
    by (simp add: getCurrentState_def states_updateState assms(2) filter_bump last_map)
qed

lemma village_failure_results:
  assumes "classify ai msg Awaiting_village = Analysis a" and "has_required_data a"
    and "extractVillage ai msg = Some (name, c, g)" and "name \<noteq> []"
    and "outcome (geocodeVillage prov clk cache name l) = Failure f"
  shows "processRegistrationWithFunctions ai prov clk cache msg Awaiting_village l =
           (geocodingFailedResults a Awaiting_village (fail_message f),
            cache_after (geocodeVillage prov clk cache name l))"
  using assms
  by (simp add: processRegistrationWithFunctions_def extractRegistrationData_def truthy_def
      geocodingFailedResults_def Let_def)

lemma geocoding_failure_step:
  assumes "getCurrentState d n = Some cur" and "stateId cur = Awaiting_village"
    and "classify ai msg Awaiting_village = Analysis a" and "has_required_data a"
    and "extractVillage ai msg = Some (name, c, g)" and "name \<noteq> []"
    and "outcome (geocodeVillage prov clk (geocodingCollection d) name l) = Failure f"
  shows "processRegistrationWithFunctionCalling ai prov clk d n msg l citizenData =
     (updateStateWithFunctionResults
        (d\<lparr>geocodingCollection :=
             cache_after (geocodeVillage prov clk (geocodingCollection d) name l)\<rparr>)
        n cur (geocodingFailedResults a Awaiting_village (fail_message f)),
      \<lparr>shouldContinue = False, response = fail_message f,
       reply_functionCallResults =
         Some (geocodingFailedResults a Awaiting_village (fail_message f))\<rparr>)"
proof -
  have "processRegistrationWithFunctions ai prov clk (geocodingCollection d) msg (stateId cur) l =
           (geocodingFailedResults a Awaiting_village (fail_message f),
            cache_after (geocodeVillage prov clk (geocodingCollection d) name l))"
    using village_failure_results [OF assms(3-7)] assms(2) by simp
  from handler_geocoding_error [OF startState_current [OF assms(1)] _ this,
      of "fail_message f" citizenData] assms(2)
  show ?thesis by (simp add: geocodingFailedResults_def)
qed

lemma geocoding_failure_effect:
  assumes "getCurrentState d n = Some cur" and "stateId cur = Awaiting_village"
    and "classify ai msg Awaiting_village = Analysis a" and "has_required_data a"
    and "extractVillage ai msg = Some (name, c, g)" and "name \<noteq> []"
    and "outcome (geocodeVillage prov clk (geocodingCollection d) name l) = Failure f"
  shows "response (snd (processRegistrationWithFunctionCalling ai prov clk d n msg l citizenData))
           = fail_message f \<and>
         \<not> shouldContinue (snd (processRegistrationWithFunctionCalling ai prov clk d n msg l
             citizenData)) \<and>
         citizensCollection (fst (processRegistrationWithFunctionCalling ai prov clk d n msg l
             citizenData)) = citizensCollection d \<and>
         committed (fst (processRegistrationWithFunctionCalling ai prov clk d n msg l
             citizenData)) n = committed d n \<and>
         getCurrentState (fst (processRegistrationWithFunctionCalling ai prov clk d n msg l
             citizenData)) n =
           Some (cur\<lparr>attempts := attempts cur + 1,
                  functionCallResults := functionCallResults cur @
                    [geocodingFailedResults a Awaiting_village (fail_message f)],
                  lastFunctionCallResult :=
                    Some (geocodingFailedResults a Awaiting_village (fail_message f))\<rparr>)"
  using getCurrentState_bump [OF assms(1), of
      "d\<lparr>geocodingCollection :=
          cache_after (geocodeVillage prov clk (geocodingCollection d) name l)\<rparr>"
      "geocodingFailedResults a Awaiting_village (fail_message f)"]
  by (simp add: geocoding_failure_step [OF assms] bump_def)

text \<open>
  C6, as the code has it. For a message in \<open>awaiting_village\<close> whose extracted village
  fails geocoding, the reply is the failure message of \<open>geocodeVillage\<close> as it is, the
  citizen's record is not changed, no state document is created or deactivated, and the
  failure is kept on the current state document: its results are appended to
  \<open>functionCallResults\<close> and its \<open>attempts\<close> counter goes up by one.
\<close>

theorem geocoding_failure_reprompt:
  assumes "getCurrentState d n = Some cur" and "stateId cur = Awaiting_village"
    and "classify ai msg Awaiting_village = Analysis a" and "has_required_data a"
    and "extractVillage ai msg = Some (name, c, g)" and "name \<noteq> []"
    and "outcome (geocodeVillage prov clk (geocodingCollection d) name l) = Failure f"
  shows "response (snd (processRegistrationWithFunctionCalling ai prov clk d n msg l citizenData))
           = fail_message f \<and>
         \<not> shouldContinue (snd (processRegistrationWithFunctionCalling ai prov clk d n msg l
             citizenData)) \<and>
         citizensCollection (fst (processRegistrationWithFunctionCalling ai prov clk d n msg l
             citizenData)) = citizensCollection d \<and>
         committed (fst (processRegistrationWithFunctionCalling ai prov clk d n msg l
             citizenData)) n = committed d n \<and>
         getCurrentState (fst (processRegistrationWithFunctionCalling ai prov clk d n msg l
             citizenData)) n =
           Some (cur\<lparr>attempts := attempts cur + 1,
                  functionCallResults := functionCallResults cur @
                    [geocodingFailedResults a Awaiting_village (fail_message f)],
                  lastFunctionCallResult :=
                    Some (geocodingFailedResults a Awaiting_village (fail_message f))\<rparr>)"
  using assms by (rule geocoding_failure_effect)

lemma sample_classify:
  "classify (sample_llm next has c nm vl) msg st =
     Analysis \<lparr>current_state = st, user_intent = Providing_info, has_required_data = has,
       next_state = next, sa_confidence = c, reason = []\<rparr>"
  "extractName (sample_llm next has c nm vl) msg = nm"
  "extractVillage (sample_llm next has c nm vl) msg = vl"
  "contextual (sample_llm next has c nm vl) = None"
  by (simp_all add: sample_llm_def)

lemma sample_db_fields:
  "geocodingCollection (sample_db sid c) = Map.empty"
  "citizensCollection (sample_db sid c) = [phone \<mapsto> c]"
  "states (sample_db sid c) phone = [newStateRecord 0 sid None]"
  by (simp_all add: sample_db_def)

lemma names_not_empty: "ascii ''Mumbai'' \<noteq> []" "ascii ''Saswad'' \<noteq> []"
  by (simp_all add: ascii_def)

lemma mumbai_outcome:
  "outcome (geocodeVillage sample_provider clk Map.empty (ascii ''Mumbai'') En) =
     Failure \<lparr>error = Village_not_in_Pune_ZP,
          fail_location = Some \<lparr>lat = 19.076, lng = 72.8777\<rparr>,
          fail_address = Some (ascii ''Mumbai, Maharashtra, India''),
          fail_message = Msg_not_in_pune_zp En\<rparr>"
  by (simp add: mumbai_call)

theorem geocoding_failure_reprompt_witness:
  "response (snd (processRegistrationWithFunctionCalling
      (sample_llm Completed True 0.9 None (Some (ascii ''Mumbai'', 0.9, True)))
      sample_provider sample_clock (sample_db Awaiting_village (newCitizen None)) phone
      (ascii ''Mumbai'') En (newCitizen None))) = Msg_not_in_pune_zp En \<and>
   citizensCollection (fst (processRegistrationWithFunctionCalling
      (sample_llm Completed True 0.9 None (Some (ascii ''Mumbai'', 0.9, True)))
      sample_provider sample_clock (sample_db Awaiting_village (newCitizen None)) phone
      (ascii ''Mumbai'') En (newCitizen None))) =
     citizensCollection (sample_db Awaiting_village (newCitizen None))"
  using geocoding_failure_reprompt [where d = "sample_db Awaiting_village (newCitizen None)" and n = phone
      and cur = "newStateRecord 0 Awaiting_village None"
      and ai = "sample_llm Completed True 0.9 None (Some (ascii ''Mumbai'', 0.9, True))"
      and msg = "ascii ''Mumbai''"
      and a = "\<lparr>current_state = Awaiting_village, user_intent = Providing_info,
        has_required_data = True, next_state = Completed, sa_confidence = 0.9, reason = []\<rparr>"
      and name = "ascii ''Mumbai''" and c = "0.9" and g = True and prov = sample_provider
      and clk = sample_clock and l = En
      and f = "\<lparr>error = Village_not_in_Pune_ZP,
          fail_location = Some \<lparr>lat = 19.076, lng = 72.8777\<rparr>,
          fail_address = Some (ascii ''Mumbai, Maharashtra, India''),
          fail_message = Msg_not_in_pune_zp En\<rparr>"
      and citizenData = "newCitizen None"]
  by (simp add: sample_current sample_classify sample_db_fields names_not_empty mumbai_outcome
      newStateRecord_def)

text \<open>
  Against C6 as stated: the geocoding failure counts as an attempt. After the out-of-boundary reply for Mumbai
  the counter of the state document is 1, where it was 0.
\<close>

theorem geocoding_failure_counts_attempt:
  "map attempts (states (sample_db Awaiting_village (newCitizen None)) phone) = [0] \<and>
   map attempts (states (fst (processRegistrationWithFunctionCalling
      (sample_llm Completed True 0.9 None (Some (ascii ''Mumbai'', 0.9, True)))
      sample_provider sample_clock (sample_db Awaiting_village (newCitizen None)) phone
      (ascii ''Mumbai'') En (newCitizen None))) phone) = [1]"
  using geocoding_failure_step [where d = "sample_db Awaiting_village (newCitizen None)" and n = phone
      and cur = "newStateRecord 0 Awaiting_village None"
      and ai = "sample_llm Completed True 0.9 None (Some (ascii ''Mumbai'', 0.9, True))"
      and msg = "ascii ''Mumbai''"
      and a = "\<lparr>current_state = Awaiting_village, user_intent = Providing_info,
        has_required_data = True, next_state = Completed, sa_confidence = 0.9, reason = []\<rparr>"
      and name = "ascii ''Mumbai''" and c = "0.9" and g = True and prov = sample_provider
      and clk = sample_clock and l = En
      and f = "\<lparr>error = Village_not_in_Pune_ZP,
          fail_location = Some \<lparr>lat = 19.076, lng = 72.8777\<rparr>,
          fail_address = Some (ascii ''Mumbai, Maharashtra, India''),
          fail_message = Msg_not_in_pune_zp En\<rparr>"
      and citizenData = "newCitizen None"]
  by (simp add: sample_current sample_classify sample_db_fields names_not_empty mumbai_outcome
      newStateRecord_def states_updateState bump_def)

lemma no_gate_no_change:
  assumes "getCurrentState d n = Some cur" and "stateId cur \<noteq> Initial"
    and "\<not> (classifierAccepts ai msg (stateId cur) \<and>
            extractRegistrationData ai msg (stateId cur) \<noteq> None)"
  shows "citizensCollection (fst (processRegistrationWithFunctionCalling ai prov clk d n msg l
           citizenData)) = citizensCollection d \<and>
         committed (fst (processRegistrationWithFunctionCalling ai prov clk d n msg l
           citizenData)) n = committed d n"
proof -
  note st = startState_current [OF assms(1)]
  obtain fr cache1 where fr:
    "processRegistrationWithFunctions ai prov clk (geocodingCollection d) msg (stateId cur) l
       = (fr, cache1)"
    by (cases "processRegistrationWithFunctions ai prov clk (geocodingCollection d) msg
        (stateId cur) l")
  from results_gate [OF fr] assms(3) have ng: "\<not> passesGate fr" by blast
  show ?thesis
  proof (cases "geocodingError fr")
    case (Some m)
    from handler_geocoding_error [OF st assms(2) fr Some, of citizenData]
    show ?thesis by simp
  next
    case None
    from handler_clarify [OF st assms(2) fr None ng, of citizenData]
    show ?thesis by simp
  qed
qed

text \<open>
  C1, as the code has it. For a message handled in a state other than \<open>initial\<close>, unless
  the classifier reported the required data with a confidence of its own above 0.7 and the
  extractor returned data, the citizen's record is left as it was and no state document is
  created or deactivated. The gate reads the classifier's confidence; the confidence of the
  extraction, clamped for a village to the minimum with the geocoding confidence over 100,
  is recorded in the extracted data (\<open>mergeGeocode\<close>) and not tested.
\<close>

theorem confidence_gate:
  assumes "getCurrentState d n = Some cur" and "stateId cur \<noteq> Initial"
    and "\<not> (classifierAccepts ai msg (stateId cur) \<and>
            extractRegistrationData ai msg (stateId cur) \<noteq> None)"
  shows "citizensCollection (fst (processRegistrationWithFunctionCalling ai prov clk d n msg l
           citizenData)) = citizensCollection d \<and>
         committed (fst (processRegistrationWithFunctionCalling ai prov clk d n msg l
           citizenData)) n = committed d n"
  using assms by (rule no_gate_no_change)

theorem confidence_gate_witness:
  "citizensCollection (fst (processRegistrationWithFunctionCalling
      (sample_llm Awaiting_village True 0.7 (Some (ascii ''Ramesh Patil'', 0.9)) None)
      sample_provider sample_clock (sample_db Awaiting_name (newCitizen None)) phone
      (ascii ''Ramesh Patil'') En (newCitizen None))) =
     citizensCollection (sample_db Awaiting_name (newCitizen None)) \<and>
   committed (fst (processRegistrationWithFunctionCalling
      (sample_llm Awaiting_village True 0.7 (Some (ascii ''Ramesh Patil'', 0.9)) None)
      sample_provider sample_clock (sample_db Awaiting_name (newCitizen None)) phone
      (ascii ''Ramesh Patil'') En (newCitizen None))) phone =
     committed (sample_db Awaiting_name (newCitizen None)) phone"
  using confidence_gate [where d = "sample_db Awaiting_name (newCitizen None)" and n = phone
      and cur = "newStateRecord 0 Awaiting_name None"
      and ai = "sample_llm Awaiting_village True 0.7 (Some (ascii ''Ramesh Patil'', 0.9)) None"
      and msg = "ascii ''Ramesh Patil''" and prov = sample_provider and clk = sample_clock
      and l = En and citizenData = "newCitizen None"]
  by (simp add: sample_current sample_classify classifierAccepts_def newStateRecord_def)

lemma village_success_results:
  assumes "classify ai msg Awaiting_village = Analysis a" and "has_required_data a"
    and "extractVillage ai msg = Some (name, c, g)" and "name \<noteq> []"
    and "outcome (geocodeVillage prov clk cache name l) = Success gs"
  shows "processRegistrationWithFunctions ai prov clk cache msg Awaiting_village l =
           (analysedResults (Some a)
              (Some (mergeGeocode
                 \<lparr>full_name = None, village_name = Some name, ed_confidence = c,
                  needs_geocoding = Some g, geocoding = None, ed_coordinates = None,
                  validated_village = None, ed_taluka = None\<rparr> gs))
              Awaiting_village,
            cache_after (geocodeVillage prov clk cache name l))"
  using assms
  by (simp add: processRegistrationWithFunctions_def extractRegistrationData_def truthy_def
      Let_def)

lemma citizens_completeRegistration:
  "citizensCollection (completeRegistration d n cur) =
     (case citizensCollection d n of
        None \<Rightarrow> citizensCollection d
      | Some c \<Rightarrow> (citizensCollection d)(n \<mapsto> c\<lparr>isRegistered := True\<rparr>))"
  by (simp add: completeRegistration_def split: option.splits)

lemma saswad_admin_village:
  "village (extractAdministrativeDetails saswad_candidate) = Some (ascii ''Saswad'')"
  by (simp add: extractAdministrativeDetails_def assignAdministrative_def saswad_candidate_def
      ascii_def Let_def)

lemma village_complete_step:
  assumes "getCurrentState d n = Some cur" and "stateId cur = Awaiting_village"
    and "classify ai msg Awaiting_village = Analysis a" and "has_required_data a"
    and "sa_confidence a > 0.7" and "next_state a = Completed"
    and "extractVillage ai msg = Some (name, c, g)" and "name \<noteq> []"
    and "outcome (geocodeVillage prov clk (geocodingCollection d) name l) = Success gs"
    and "citizensCollection d n = Some cz"
  shows "map_option ed_confidence (Option.bind (reply_functionCallResults
           (snd (processRegistrationWithFunctionCalling ai prov clk d n msg l citizenData)))
           extractedData) = Some (min c (real (confidence gs) / 100))"
    and "map_option isRegistered (citizensCollection
           (fst (processRegistrationWithFunctionCalling ai prov clk d n msg l citizenData)) n)
           = Some True"
    and "map_option citizen_village (citizensCollection
           (fst (processRegistrationWithFunctionCalling ai prov clk d n msg l citizenData)) n)
           = Some (or_else (village (administrative gs)) (Some name))"
    and "map_option userProvidedName (citizensCollection
           (fst (processRegistrationWithFunctionCalling ai prov clk d n msg l citizenData)) n)
           = Some (userProvidedName cz)"
proof -
  have r: "processRegistrationWithFunctions ai prov clk (geocodingCollection d) msg
      Awaiting_village l =
      (analysedResults (Some a)
         (Some (mergeGeocode
            \<lparr>full_name = None, village_name = Some name, ed_confidence = c,
             needs_geocoding = Some g, geocoding = None, ed_coordinates = None,
             validated_village = None, ed_taluka = None\<rparr> gs))
         Awaiting_village,
       cache_after (geocodeVillage prov clk (geocodingCollection d) name l))"
    using assms(3,4,7,8,9) by (rule village_success_results)
  note unfold = handler_unfold startState_current [OF assms(1)] assms r analysedResults_def
    passesGate_def mergeGeocode_def Let_def citizens_completeRegistration
    updateCitizenDataFromFunctions_def truthy_def or_else_def
  show "map_option ed_confidence (Option.bind (reply_functionCallResults
           (snd (processRegistrationWithFunctionCalling ai prov clk d n msg l citizenData)))
           extractedData) = Some (min c (real (confidence gs) / 100))"
    using assms(5) by (simp add: unfold)
  show "map_option isRegistered (citizensCollection
           (fst (processRegistrationWithFunctionCalling ai prov clk d n msg l citizenData)) n)
           = Some True"
    using assms(5) by (simp add: unfold)
  show "map_option citizen_village (citizensCollection
           (fst (processRegistrationWithFunctionCalling ai prov clk d n msg l citizenData)) n)
           = Some (or_else (village (administrative gs)) (Some name))"
    using assms(5) by (simp add: unfold split: option.splits)
  show "map_option userProvidedName (citizensCollection
           (fst (processRegistrationWithFunctionCalling ai prov clk d n msg l citizenData)) n)
           = Some (userProvidedName cz)"
    using assms(5) by (simp add: unfold split: option.splits)
qed

lemmas saswad_low_confidence = village_complete_step
  [where d = "sample_db Awaiting_village (newCitizen None)" and n = phone
      and cur = "newStateRecord 0 Awaiting_village None"
      and ai = "sample_llm Completed True 0.9 None (Some (ascii ''Saswad'', 0.5, True))"
      and msg = "ascii ''Saswad''"
      and a = "\<lparr>current_state = Awaiting_village, user_intent = Providing_info,
        has_required_data = True, next_state = Completed, sa_confidence = 0.9, reason = []\<rparr>"
      and name = "ascii ''Saswad''" and c = "0.5" and g = True and prov = sample_provider
      and clk = sample_clock and l = En and gs = saswad_result and cz = "newCitizen None"
      and citizenData = "newCitizen None"]

text \<open>
  Against C1 as stated: a village is merged and the registration completed with a
  combined confidence of 0.5:
  the classifier reports 0.9, the extraction 0.5, and the geocoding score is 180.
\<close>

theorem low_combined_confidence_is_merged:
  "map_option ed_confidence (Option.bind (reply_functionCallResults
      (snd (processRegistrationWithFunctionCalling
        (sample_llm Completed True 0.9 None (Some (ascii ''Saswad'', 0.5, True)))
        sample_provider sample_clock (sample_db Awaiting_village (newCitizen None)) phone
        (ascii ''Saswad'') En (newCitizen None)))) extractedData) = Some 0.5 \<and>
   map_option citizen_village (citizensCollection
      (fst (processRegistrationWithFunctionCalling
        (sample_llm Completed True 0.9 None (Some (ascii ''Saswad'', 0.5, True)))
        sample_provider sample_clock (sample_db Awaiting_village (newCitizen None)) phone
        (ascii ''Saswad'') En (newCitizen None))) phone) = Some (Some (ascii ''Saswad'')) \<and>
   map_option isRegistered (citizensCollection
      (fst (processRegistrationWithFunctionCalling
        (sample_llm Completed True 0.9 None (Some (ascii ''Saswad'', 0.5, True)))
        sample_provider sample_clock (sample_db Awaiting_village (newCitizen None)) phone
        (ascii ''Saswad'') En (newCitizen None))) phone) = Some True"
  using saswad_low_confidence(1) saswad_low_confidence(2) saswad_low_confidence(3)
  by (simp add: sample_current sample_classify sample_db_fields names_not_empty
      saswad_first_call newStateRecord_def saswad_result_def saswad_admin_village
      or_else_def truthy_def)

lemma deactivate_fields [simp]:
  "doc_id (deactivate cur data r) = doc_id r"
  "stateId (deactivate cur data r) = stateId r"
  by (simp_all add: deactivate_def)

lemma stateIds_maps [simp]:
  "map stateId (map (bump cur fr) rs) = map stateId rs"
  "map stateId (map (deactivate cur data) rs) = map stateId rs"
  by (simp_all add: comp_def)


lemma current_after_append:
  assumes "states d n = xs @ [r]" and "isActive r"
  shows "getCurrentState d n = Some r"
proof (cases "filter isActive xs")
  case Nil
  with assms show ?thesis by (simp add: getCurrentState_def)
next
  case (Cons y ys)
  with assms show ?thesis by (simp add: getCurrentState_def)
qed

lemma newStateRecord_fields [simp]:
  "isActive (newStateRecord i sid prev)" "stateId (newStateRecord i sid prev) = sid"
  by (simp_all add: newStateRecord_def)

text \<open>The state identifiers of the citizen after a call.\<close>

lemma handler_stateIds:
  assumes "getCurrentState d n = Some cur" and "followsGraph ai msg (stateId cur)"
  shows "stateIds (fst (processRegistrationWithFunctionCalling ai prov clk d n msg l c)) n
           = stateIds d n \<and>
         map_option stateId (getCurrentState
           (fst (processRegistrationWithFunctionCalling ai prov clk d n msg l c)) n)
           = Some (stateId cur) \<or>
         (\<exists>s \<in> set (nextStates (stateId cur)).
            stateIds (fst (processRegistrationWithFunctionCalling ai prov clk d n msg l c)) n
              = stateIds d n @ [s] \<and>
            map_option stateId (getCurrentState
              (fst (processRegistrationWithFunctionCalling ai prov clk d n msg l c)) n)
              = Some s)"
proof -
  let ?d' = "fst (processRegistrationWithFunctionCalling ai prov clk d n msg l c)"
  note st = startState_current [OF assms(1)]
  from assms(1) obtain r rs where f: "filter isActive (states d n) = r # rs"
    and cur: "cur = last (r # rs)"
    by (auto simp add: getCurrentState_def split: list.splits)
  from handler_states [OF st, of ai prov clk msg l c]
  consider (initial) "stateId cur = Initial"
      "states ?d' = (states d)(n := map (deactivate cur None) (states d n) @
              [newStateRecord (length (states d n)) Awaiting_name (Some (stateId cur))])"
    | (stay) fr where "states ?d' = (states d)(n := map (bump cur fr) (states d n))"
    | (move) fr data nxt a where
      "states ?d' = (states d)(n := map (deactivate cur data) (map (bump cur fr) (states d n)) @
         [newStateRecord (length (states d n)) nxt (Some (stateId cur))])"
      "classify ai msg (stateId cur) = Analysis a" "nxt = next_state a"
    by blast
  then show ?thesis
  proof cases
    case initial
    then have "stateIds ?d' n = stateIds d n @ [Awaiting_name]"
      "map_option stateId (getCurrentState ?d' n) = Some Awaiting_name"
      by (simp_all add: stateIds_def current_after_append [of ?d' n
            "map (deactivate cur None) (states d n)"])
    with initial(1) show ?thesis by simp
  next
    case stay
    then have "stateIds ?d' n = stateIds d n"
      "map_option stateId (getCurrentState ?d' n) = Some (stateId cur)"
      using f cur
      by (simp_all add: stateIds_def getCurrentState_def filter_bump last_map)
    then show ?thesis by simp
  next
    case move
    then have "stateIds ?d' n = stateIds d n @ [nxt]"
      "map_option stateId (getCurrentState ?d' n) = Some nxt"
      by (simp_all add: stateIds_def current_after_append [of ?d' n
            "map (deactivate cur data) (map (bump cur fr) (states d n))"])
    moreover from move(2,3) assms(2) have "nxt \<in> set (nextStates (stateId cur))"
      by (simp add: followsGraph_def)
    ultimately show ?thesis by blast
  qed
qed





lemma name_results:
  assumes "classify ai msg Awaiting_name = Analysis a" and "has_required_data a"
    and "extractName ai msg = Some (name, c)"
  shows "processRegistrationWithFunctions ai prov clk cache msg Awaiting_name l =
           (analysedResults (Some a)
              (Some \<lparr>full_name = Some name, village_name = None, ed_confidence = c,
                  needs_geocoding = None, geocoding = None, ed_coordinates = None,
                  validated_village = None, ed_taluka = None\<rparr>)
              Awaiting_name, cache)"
  using assms
  by (simp add: processRegistrationWithFunctions_def extractRegistrationData_def)

lemma name_accept_step:
  assumes "getCurrentState d n = Some cur" and "stateId cur = Awaiting_name"
    and "classify ai msg Awaiting_name = Analysis a" and "has_required_data a"
    and "sa_confidence a > 0.7"
    and "extractName ai msg = Some (name, c)" and "name \<noteq> []"
    and "citizensCollection d n = Some cz"
  shows "stateIds (fst (processRegistrationWithFunctionCalling ai prov clk d n msg l citizenData))
           n = stateIds d n @ [next_state a]"
    and "map_option isRegistered (citizensCollection
           (fst (processRegistrationWithFunctionCalling ai prov clk d n msg l citizenData)) n)
           = Some (next_state a = Completed \<or> isRegistered cz)"
    and "map_option citizen_village (citizensCollection
           (fst (processRegistrationWithFunctionCalling ai prov clk d n msg l citizenData)) n)
           = Some (citizen_village cz)"
    and "map_option userProvidedName (citizensCollection
           (fst (processRegistrationWithFunctionCalling ai prov clk d n msg l citizenData)) n)
           = Some (Some name)"
proof -
  have r: "processRegistrationWithFunctions ai prov clk (geocodingCollection d) msg
      Awaiting_name l =
      (analysedResults (Some a)
         (Some \<lparr>full_name = Some name, village_name = None, ed_confidence = c,
             needs_geocoding = None, geocoding = None, ed_coordinates = None,
             validated_village = None, ed_taluka = None\<rparr>)
         Awaiting_name, geocodingCollection d)"
    using assms(3,4,6) by (rule name_results)
  note unfold = handler_unfold startState_current [OF assms(1)] assms r analysedResults_def
    passesGate_def Let_def citizens_completeRegistration states_completeRegistration
    states_completeStateTransition states_updateState stateIds_def
    updateCitizenDataFromFunctions_def truthy_def
  show "stateIds (fst (processRegistrationWithFunctionCalling ai prov clk d n msg l citizenData))
           n = stateIds d n @ [next_state a]"
    using assms(5) by (simp add: unfold)
  show "map_option isRegistered (citizensCollection
           (fst (processRegistrationWithFunctionCalling ai prov clk d n msg l citizenData)) n)
           = Some (next_state a = Completed \<or> isRegistered cz)"
    using assms(5) by (simp add: unfold)
  show "map_option citizen_village (citizensCollection
           (fst (processRegistrationWithFunctionCalling ai prov clk d n msg l citizenData)) n)
           = Some (citizen_village cz)"
    using assms(5) by (simp add: unfold)
  show "map_option userProvidedName (citizensCollection
           (fst (processRegistrationWithFunctionCalling ai prov clk d n msg l citizenData)) n)
           = Some (Some name)"
    using assms(5) by (simp add: unfold)
qed

lemma ramesh_not_empty: "ascii ''Ramesh Patil'' \<noteq> []"
  by (simp add: ascii_def)

lemmas name_to_completed = name_accept_step
  [where d = "sample_db Awaiting_name (newCitizen None)" and n = phone
      and cur = "newStateRecord 0 Awaiting_name None"
      and ai = "sample_llm Completed True 0.9 (Some (ascii ''Ramesh Patil'', 0.9)) None"
      and msg = "ascii ''Ramesh Patil''"
      and a = "\<lparr>current_state = Awaiting_name, user_intent = Providing_info,
        has_required_data = True, next_state = Completed, sa_confidence = 0.9, reason = []\<rparr>"
      and name = "ascii ''Ramesh Patil''" and c = "0.9" and prov = sample_provider
      and clk = sample_clock and l = En and cz = "newCitizen None"
      and citizenData = "newCitizen None"]


text \<open>
  Against C3 as stated: after that call the citizen is registered and has no village.
\<close>

theorem registered_without_village:
  "map_option isRegistered (citizensCollection (fst (processRegistrationWithFunctionCalling
      (sample_llm Completed True 0.9 (Some (ascii ''Ramesh Patil'', 0.9)) None)
      sample_provider sample_clock (sample_db Awaiting_name (newCitizen None)) phone
      (ascii ''Ramesh Patil'') En (newCitizen None))) phone) = Some True \<and>
   map_option citizen_village (citizensCollection (fst (processRegistrationWithFunctionCalling
      (sample_llm Completed True 0.9 (Some (ascii ''Ramesh Patil'', 0.9)) None)
      sample_provider sample_clock (sample_db Awaiting_name (newCitizen None)) phone
      (ascii ''Ramesh Patil'') En (newCitizen None))) phone) = Some None"
  using name_to_completed(2) name_to_completed(3)
  by (simp add: sample_current sample_classify sample_db_fields ramesh_not_empty
      newStateRecord_def newCitizen_def)

lemma fieldsFor_iff: "fieldsFor st c \<Longrightarrow> registeredIffBoth c"
  by (auto simp add: fieldsFor_def registeredIffBoth_def split: option.splits state_id.splits)

lemma current_stateId_committed:
  "map_option stateId (getCurrentState d n) =
     (case filter (\<lambda>x. snd (snd x)) (committed d n) of
        [] \<Rightarrow> None
      | x # xs \<Rightarrow> Some (fst (snd (last (x # xs)))))"
proof -
  have "filter (\<lambda>x. snd (snd x)) (committed d n) =
        map (\<lambda>r. (doc_id r, stateId r, isActive r)) (filter isActive (states d n))"
    by (simp add: committed_def filter_map comp_def)
  then show ?thesis
    by (cases "filter isActive (states d n)") (simp_all add: getCurrentState_def last_map)
qed

lemma same_committed_same_state:
  "committed d' n = committed d n \<Longrightarrow>
     map_option stateId (getCurrentState d' n) = map_option stateId (getCurrentState d n)"
  by (simp add: current_stateId_committed)

lemma village_complete_stateIds:
  assumes "getCurrentState d n = Some cur" and "stateId cur = Awaiting_village"
    and "classify ai msg Awaiting_village = Analysis a" and "has_required_data a"
    and "sa_confidence a > 0.7" and "next_state a = Completed"
    and "extractVillage ai msg = Some (name, c, g)" and "name \<noteq> []"
    and "outcome (geocodeVillage prov clk (geocodingCollection d) name l) = Success gs"
    and "citizensCollection d n = Some cz"
  shows "stateIds (fst (processRegistrationWithFunctionCalling ai prov clk d n msg l citizenData))
           n = stateIds d n @ [Completed]"
proof -
  have r: "processRegistrationWithFunctions ai prov clk (geocodingCollection d) msg
      Awaiting_village l =
      (analysedResults (Some a)
         (Some (mergeGeocode
            \<lparr>full_name = None, village_name = Some name, ed_confidence = c,
             needs_geocoding = Some g, geocoding = None, ed_coordinates = None,
             validated_village = None, ed_taluka = None\<rparr> gs))
         Awaiting_village,
       cache_after (geocodeVillage prov clk (geocodingCollection d) name l))"
    using assms(3,4,7,8,9) by (rule village_success_results)
  show ?thesis
    using assms(5)
    by (simp add: handler_unfold startState_current [OF assms(1)] assms r analysedResults_def
        passesGate_def Let_def states_completeRegistration states_completeStateTransition
        states_updateState stateIds_def updateCitizenDataFromFunctions_def truthy_def)
qed

lemma moved_current:
  assumes "getCurrentState d n = Some cur" and "followsGraph ai msg (stateId cur)"
    and "stateIds (fst (processRegistrationWithFunctionCalling ai prov clk d n msg l c)) n
           = stateIds d n @ [s]"
  shows "map_option stateId (getCurrentState
           (fst (processRegistrationWithFunctionCalling ai prov clk d n msg l c)) n) = Some s"
  using handler_stateIds [OF assms(1,2), of prov clk l c] assms(3) by auto

lemma or_else_Some: "name \<noteq> [] \<Longrightarrow> or_else v (Some name) \<noteq> None"
  by (auto simp add: or_else_def truthy_def split: option.splits)

lemma consistent_step_current:
  assumes cur: "getCurrentState d n = Some cur"
    and cons: "consistent d n"
    and wb: "wellBehaved ai msg (stateId cur)"
  shows "consistent (fst (processRegistrationWithFunctionCalling ai prov clk d n msg l citizenData))
           n"
proof -
  let ?d' = "fst (processRegistrationWithFunctionCalling ai prov clk d n msg l citizenData)"
  from cons obtain cz where cz: "citizensCollection d n = Some cz"
    and fields: "fieldsFor (Some (stateId cur)) cz"
    using cur by (auto simp add: consistent_def split: option.splits)
  note st = startState_current [OF cur]
  show ?thesis
  proof (cases "stateId cur = Initial")
    case True
    from handler_initial [OF st True, of ai prov clk msg l citizenData]
    have d': "?d' = completeStateTransition d n cur None Awaiting_name" by simp
    have "getCurrentState ?d' n =
        Some (newStateRecord (length (states d n)) Awaiting_name (Some (stateId cur)))"
      by (rule current_after_append [where xs = "map (deactivate cur None) (states d n)"])
         (simp_all add: d' states_completeStateTransition)
    with cz fields True show ?thesis
      by (simp add: consistent_def d' fieldsFor_def)
  next
    case notInitial: False
    show ?thesis
    proof (cases "classifierAccepts ai msg (stateId cur) \<and>
        extractRegistrationData ai msg (stateId cur) \<noteq> None")
      case False
      from no_gate_no_change [OF cur notInitial False, of prov clk l citizenData]
      have "citizensCollection ?d' = citizensCollection d"
        "map_option stateId (getCurrentState ?d' n) = Some (stateId cur)"
        using same_committed_same_state [of ?d' n d] cur by simp_all
      with cz fields show ?thesis
        by (auto simp add: consistent_def)
    next
      case True
      then obtain a e where a: "classify ai msg (stateId cur) = Analysis a"
        "has_required_data a" "sa_confidence a > 0.7"
        and e: "extractRegistrationData ai msg (stateId cur) = Some e"
        by (auto simp add: classifierAccepts_def split: classifier_result.splits)
      from wb a e have nxt: "next_state a \<in> set (nextStates (stateId cur))"
        and tn: "stateId cur = Awaiting_name \<Longrightarrow> truthy (full_name e)"
        and tv: "stateId cur = Awaiting_village \<Longrightarrow> truthy (village_name e)"
        by (simp_all add: wellBehaved_def)
      from a nxt have fg: "followsGraph ai msg (stateId cur)"
        by (simp add: followsGraph_def)
      show ?thesis
      proof (cases "stateId cur")
        case Initial
        with notInitial show ?thesis by simp
      next
        case Completed
        with nxt show ?thesis by simp
      next
        case Awaiting_name
        with e obtain name c where nm: "extractName ai msg = Some (name, c)"
          and en: "full_name e = Some name"
          by (auto simp add: extractRegistrationData_def split: option.splits)
        with tn Awaiting_name have ne: "name \<noteq> []" by (simp add: truthy_def)
        from nxt Awaiting_name have nx: "next_state a = Awaiting_village" by simp
        note step = name_accept_step [OF cur Awaiting_name a(1) [unfolded Awaiting_name] a(2,3)
            nm ne cz, of prov clk l citizenData]
        from moved_current [OF cur fg step(1)] nx
        have "map_option stateId (getCurrentState ?d' n) = Some Awaiting_village" by simp
        moreover from step(2,3,4) nx fields Awaiting_name
        obtain cz' where "citizensCollection ?d' n = Some cz'" "\<not> isRegistered cz'"
          "citizen_village cz' = None" "userProvidedName cz' \<noteq> None"
          by (auto simp add: fieldsFor_def)
        ultimately show ?thesis
          by (auto simp add: consistent_def fieldsFor_def)
      next
        case Awaiting_village
        with e obtain name c g where nm: "extractVillage ai msg = Some (name, c, g)"
          and en: "village_name e = Some name"
          by (auto simp add: extractRegistrationData_def split: option.splits)
        with tv Awaiting_village have ne: "name \<noteq> []" by (simp add: truthy_def)
        from nxt Awaiting_village have nx: "next_state a = Completed" by simp
        show ?thesis
        proof (cases "outcome (geocodeVillage prov clk (geocodingCollection d) name l)")
          case (Failure f)
          from geocoding_failure_effect [OF cur Awaiting_village a(1) [unfolded Awaiting_village]
              a(2) nm ne Failure, where citizenData = citizenData]
          have "citizensCollection ?d' = citizensCollection d"
            "map_option stateId (getCurrentState ?d' n) = Some (stateId cur)"
            by simp_all
          with cz fields show ?thesis
            by (auto simp add: consistent_def)
        next
          case (Success gs)
          note step = village_complete_step [OF cur Awaiting_village
              a(1) [unfolded Awaiting_village] a(2,3) nx nm ne Success cz, of citizenData]
          note ids = village_complete_stateIds [OF cur Awaiting_village
              a(1) [unfolded Awaiting_village] a(2,3) nx nm ne Success cz, of citizenData]
          from moved_current [OF cur fg ids]
          have "map_option stateId (getCurrentState ?d' n) = Some Completed" .
          moreover from step(2,3,4) fields Awaiting_village or_else_Some [OF ne]
          obtain cz' where "citizensCollection ?d' n = Some cz'" "isRegistered cz'"
            "citizen_village cz' \<noteq> None" "userProvidedName cz' \<noteq> None"
            by (auto simp add: fieldsFor_def)
          ultimately show ?thesis
            by (auto simp add: consistent_def fieldsFor_def)
        qed
      qed
    qed
  qed
qed


lemma startState_is_current:
  assumes "startState d n = (d1, cur)"
  shows "getCurrentState d1 n = Some cur"
proof (cases "getCurrentState d n")
  case None
  with assms have d1: "d1 = fst (createStateRecord d n Awaiting_name)"
    and c: "cur = newStateRecord (length (states d n)) Awaiting_name None"
    by (auto simp add: startState_def createStateRecord_def Let_def)
  show ?thesis
    by (rule current_after_append [where xs = "states d n"])
       (simp_all add: d1 c createStateRecord_def Let_def)
next
  case (Some st)
  with assms show ?thesis by (simp add: startState_def)
qed

lemma handler_from_start:
  assumes "startState d n = (d1, cur)"
  shows "processRegistrationWithFunctionCalling ai prov clk d n msg l c =
         processRegistrationWithFunctionCalling ai prov clk d1 n msg l c"
  using assms startState_current [OF startState_is_current [OF assms]]
  by (simp add: handler_unfold)

lemma consistent_start:
  assumes "consistent d n" and "startState d n = (d1, cur)"
  shows "consistent d1 n"
proof (cases "getCurrentState d n")
  case None
  with assms(2) have "citizensCollection d1 = citizensCollection d"
    and "stateId cur = Awaiting_name"
    by (auto simp add: startState_def createStateRecord_def Let_def newStateRecord_def)
  with assms(1) None startState_is_current [OF assms(2)] show ?thesis
    by (auto simp add: consistent_def fieldsFor_def split: option.splits)
next
  case (Some st)
  with assms show ?thesis by (simp add: startState_def)
qed

lemma consistent_step:
  assumes "consistent d n" and "wellBehaved ai msg (stateId (snd (startState d n)))"
  shows "consistent (fst (processRegistrationWithFunctionCalling ai prov clk d n msg l citizenData))
           n"
proof -
  obtain d1 cur where st: "startState d n = (d1, cur)"
    by (cases "startState d n")
  from consistent_step_current [OF startState_is_current [OF st] consistent_start [OF assms(1) st],
      of ai msg prov clk l citizenData] assms(2) st
  show ?thesis
    by (simp add: handler_from_start [OF st])
qed

lemma consistent_registered:
  "consistent d n \<Longrightarrow>
     (case citizensCollection d n of None \<Rightarrow> False | Some c \<Rightarrow> registeredIffBoth c)"
  by (auto simp add: consistent_def fieldsFor_iff split: option.splits)

lemma consistent_new_citizen:
  assumes "citizensCollection d n = None" and "states d n = []"
  shows "consistent (fst (getOrCreateCitizen d n displayName)) n"
proof -
  let ?c = "newCitizen (if truthy displayName then displayName else None)"
  let ?d1 = "d\<lparr>citizensCollection := (citizensCollection d)(n \<mapsto> ?c)\<rparr>"
  have d': "fst (getOrCreateCitizen d n displayName) = fst (createStateRecord ?d1 n Initial)"
    using assms(1) by (simp add: getOrCreateCitizen_def Let_def)
  have "getCurrentState (fst (createStateRecord ?d1 n Initial)) n =
      Some (newStateRecord 0 Initial None)"
    by (rule current_after_append [where xs = "[]"])
       (simp_all add: createStateRecord_def Let_def assms(2))
  then show ?thesis
    by (simp add: d' consistent_def fieldsFor_def createStateRecord_def Let_def newCitizen_def)
qed

text \<open>
  C3, as the code has it. \<open>completeRegistration\<close> sets the flag whenever a transition
  passes the gate with \<open>completed\<close> as next state; it does not look at the two fields. The
  flag and the fields agree under two conditions on the answers of the language model:
  the classifier names a fixed successor of the current state, and an extraction it
  accepts carries a non-empty name or village. Then a call keeps the citizen's record
  consistent with the current state (no name and no village up to \<open>awaiting_name\<close>, a name
  and no village in \<open>awaiting_village\<close>, both and the flag in \<open>completed\<close>), so the citizen
  is registered if and only if the name and the village are both set. A citizen just
  created is consistent (\<open>consistent_new_citizen\<close>).
\<close>

theorem registered_iff_name_and_village:
  assumes "consistent d n" and "wellBehaved ai msg (stateId (snd (startState d n)))"
  shows "consistent (fst (processRegistrationWithFunctionCalling ai prov clk d n msg l citizenData))
           n \<and>
         (case citizensCollection
            (fst (processRegistrationWithFunctionCalling ai prov clk d n msg l citizenData)) n of
            None \<Rightarrow> False
          | Some c \<Rightarrow> registeredIffBoth c)"
  using consistent_step [OF assms] consistent_registered by blast

lemmas saswad_accepted = village_complete_step
  [where d = "sample_db Awaiting_village ramesh" and n = phone
      and cur = "newStateRecord 0 Awaiting_village None"
      and ai = "sample_llm Completed True 0.9 None (Some (ascii ''Saswad'', 0.9, True))"
      and msg = "ascii ''Saswad''"
      and a = "\<lparr>current_state = Awaiting_village, user_intent = Providing_info,
        has_required_data = True, next_state = Completed, sa_confidence = 0.9, reason = []\<rparr>"
      and name = "ascii ''Saswad''" and c = "0.9" and g = True and prov = sample_provider
      and clk = sample_clock and l = En and gs = saswad_result and cz = ramesh
      and citizenData = ramesh]

theorem registered_iff_name_and_village_witness:
  "consistent (fst (processRegistrationWithFunctionCalling
      (sample_llm Completed True 0.9 None (Some (ascii ''Saswad'', 0.9, True)))
      sample_provider sample_clock (sample_db Awaiting_village ramesh) phone
      (ascii ''Saswad'') En ramesh)) phone \<and>
   (case citizensCollection (fst (processRegistrationWithFunctionCalling
      (sample_llm Completed True 0.9 None (Some (ascii ''Saswad'', 0.9, True)))
      sample_provider sample_clock (sample_db Awaiting_village ramesh) phone
      (ascii ''Saswad'') En ramesh)) phone of
      None \<Rightarrow> False
    | Some c \<Rightarrow> registeredIffBoth c) \<and>
   map_option isRegistered (citizensCollection (fst (processRegistrationWithFunctionCalling
      (sample_llm Completed True 0.9 None (Some (ascii ''Saswad'', 0.9, True)))
      sample_provider sample_clock (sample_db Awaiting_village ramesh) phone
      (ascii ''Saswad'') En ramesh)) phone) = Some True"
  using registered_iff_name_and_village [where d = "sample_db Awaiting_village ramesh"
      and n = phone
      and ai = "sample_llm Completed True 0.9 None (Some (ascii ''Saswad'', 0.9, True))"
      and msg = "ascii ''Saswad''" and prov = sample_provider and clk = sample_clock
      and l = En and citizenData = ramesh]
    saswad_accepted(2)
  by (simp add: consistent_def fieldsFor_def wellBehaved_def startState_current [OF sample_current]
      sample_current sample_classify sample_db_fields names_not_empty saswad_first_call
      newStateRecord_def extractRegistrationData_def truthy_def ramesh_def newCitizen_def)

subsection \<open>Transition commits\<close>

lemma commit_shape:
  assumes "filter isActive rs = [cur]" and "i < length rs" and "rs ! i = cur"
  shows "(map (deactivate cur data) rs @ [new]) ! i =
           cur\<lparr>isActive := False, isCompleted := True, stamped_extractedData := data,
               finalConfidence := finalConfidenceOf data\<rparr>"
    and "filter isActive (map (deactivate cur data) rs) = []"
proof -
  from assms(2,3) show "(map (deactivate cur data) rs @ [new]) ! i =
           cur\<lparr>isActive := False, isCompleted := True, stamped_extractedData := data,
               finalConfidence := finalConfidenceOf data\<rparr>"
    by (simp add: nth_append deactivate_def)
  from assms(1) have "\<forall>r \<in> set rs. isActive r \<longrightarrow> doc_id r = doc_id cur"
    using only_active_doc_id by blast
  then show "filter isActive (map (deactivate cur data) rs) = []"
    by (rule filter_deactivate)
qed

lemma deactivate_bump: "deactivate (bump cur fr cur) data = deactivate cur data"
  by (simp add: deactivate_def fun_eq_iff)

lemma commit_shape_bump:
  assumes "filter isActive rs = [cur]" and "i < length rs" and "rs ! i = cur"
  shows "(map (deactivate cur data) (map (bump cur fr) rs) @ [new]) ! i =
           (bump cur fr cur)\<lparr>isActive := False, isCompleted := True,
               stamped_extractedData := data, finalConfidence := finalConfidenceOf data\<rparr>"
    and "filter isActive (map (deactivate cur data) (map (bump cur fr) rs)) = []"
proof -
  from assms(1) have f: "filter isActive (map (bump cur fr) rs) = [bump cur fr cur]"
    by (simp add: filter_bump)
  from assms(2,3) have i: "i < length (map (bump cur fr) rs)"
    "map (bump cur fr) rs ! i = bump cur fr cur"
    by simp_all
  from commit_shape(1) [OF f i, of data new] commit_shape(2) [OF f i, of data]
  show "(map (deactivate cur data) (map (bump cur fr) rs) @ [new]) ! i =
           (bump cur fr cur)\<lparr>isActive := False, isCompleted := True,
               stamped_extractedData := data, finalConfidence := finalConfidenceOf data\<rparr>"
    and "filter isActive (map (deactivate cur data) (map (bump cur fr) rs)) = []"
    by (simp_all only: deactivate_bump)
qed

lemma handler_commit:
  assumes cs: "getCurrentState d n = Some cur"
    and one: "length (filter isActive (states d n)) \<le> 1"
    and moved: "length (states (fst (processRegistrationWithFunctionCalling ai prov clk d n msg l c)) n)
             \<noteq> length (states d n)"
  shows "(\<exists>i < length (states d n). states d n ! i = cur \<and>
           states (fst (processRegistrationWithFunctionCalling ai prov clk d n msg l c)) n ! i =
             (handlerPrior cur
                (fst (processRegistrationWithFunctions ai prov clk (geocodingCollection d) msg
                   (stateId cur) l)))
             \<lparr>isActive := False, isCompleted := True,
              stamped_extractedData := handlerSnapshot cur
                (fst (processRegistrationWithFunctions ai prov clk (geocodingCollection d) msg
                   (stateId cur) l)),
              finalConfidence := finalConfidenceOf (handlerSnapshot cur
                (fst (processRegistrationWithFunctions ai prov clk (geocodingCollection d) msg
                   (stateId cur) l)))\<rparr>) \<and>
         filter isActive
           (states (fst (processRegistrationWithFunctionCalling ai prov clk d n msg l c)) n) =
           [newStateRecord (length (states d n))
              (handlerTarget cur
                 (fst (processRegistrationWithFunctions ai prov clk (geocodingCollection d) msg
                    (stateId cur) l)))
              (Some (stateId cur))]"
proof -
  note st = startState_current [OF cs]
  from cs one have act: "filter isActive (states d n) = [cur]"
    by (rule current_is_only_active)
  then have "cur \<in> set (filter isActive (states d n))" by simp
  then have "cur \<in> set (states d n)" by simp
  then obtain i where i: "i < length (states d n)" "states d n ! i = cur"
    by (auto simp add: in_set_conv_nth)
  obtain fr cache1 where fr:
    "processRegistrationWithFunctions ai prov clk (geocodingCollection d) msg (stateId cur) l
       = (fr, cache1)"
    by (cases "processRegistrationWithFunctions ai prov clk (geocodingCollection d) msg
        (stateId cur) l")
  let ?H = "processRegistrationWithFunctionCalling ai prov clk d n msg l c"
  have "states (fst ?H) n ! i =
          (handlerPrior cur fr)
          \<lparr>isActive := False, isCompleted := True,
           stamped_extractedData := handlerSnapshot cur fr,
           finalConfidence := finalConfidenceOf (handlerSnapshot cur fr)\<rparr> \<and>
        filter isActive (states (fst ?H) n) =
          [newStateRecord (length (states d n)) (handlerTarget cur fr) (Some (stateId cur))]"
  proof (cases "stateId cur = Initial")
    case True
    from handler_initial [OF st True, of ai prov clk msg l c]
    have "states (fst ?H) n = map (deactivate cur None) (states d n) @
            [newStateRecord (length (states d n)) Awaiting_name (Some (stateId cur))]"
      by (simp add: states_completeStateTransition)
    with commit_shape [OF act i] True show ?thesis
      by (simp add: handlerPrior_def handlerSnapshot_def handlerTarget_def newStateRecord_def)
  next
    case False
    show ?thesis
    proof (cases "geocodingError fr")
      case (Some m)
      from handler_geocoding_error [OF st False fr Some, of c]
      have "states (fst ?H) n = map (bump cur fr) (states d n)"
        by (simp add: states_updateState)
      with moved show ?thesis by simp
    next
      case None
      show ?thesis
      proof (cases "passesGate fr")
        case False
        from handler_clarify [OF st \<open>stateId cur \<noteq> Initial\<close> fr None False, of c]
        have "states (fst ?H) n = map (bump cur fr) (states d n)"
          by (simp add: states_updateState)
        with moved show ?thesis by simp
      next
        case True
        then have ex: "extractedData fr = Some (the (extractedData fr))"
          by (simp add: passesGate_def)
        let ?D = "updateCitizenDataFromFunctions
          (storeFunctionCallResultInSubcollection
             (updateStateWithFunctionResults (d\<lparr>geocodingCollection := cache1\<rparr>) n cur fr)
             n (stateId cur) fr)
          n (stateId cur) (the (extractedData fr))"
        have D: "states ?D n = map (bump cur fr) (states d n)"
          by (simp add: states_updateState)
        show ?thesis
        proof (cases "nextState fr = Completed")
          case nx: True
          from handler_complete [OF st \<open>stateId cur \<noteq> Initial\<close> fr None True nx, of c]
          have H: "fst ?H = completeRegistration ?D n cur" .
          show ?thesis
          proof (cases "citizensCollection ?D n")
            case None
            then have "states (fst ?H) n = map (bump cur fr) (states d n)"
              by (simp only: H states_completeRegistration D option.case)
            with moved show ?thesis by simp
          next
            case (Some x)
            then have "states (fst ?H) n =
                map (deactivate cur None) (map (bump cur fr) (states d n)) @
                  [newStateRecord (length (states d n)) Completed (Some (stateId cur))]"
              by (simp add: H states_completeRegistration states_completeStateTransition
                  states_updateState)
            with commit_shape_bump [OF act i] False nx show ?thesis
              by (simp add: handlerPrior_def handlerSnapshot_def handlerTarget_def
                  newStateRecord_def)
          qed
        next
          case nx: False
          from handler_advance [OF st \<open>stateId cur \<noteq> Initial\<close> fr None True nx, of c]
          have "states (fst ?H) n =
                map (deactivate cur (extractedData fr)) (map (bump cur fr) (states d n)) @
                  [newStateRecord (length (states d n)) (nextState fr) (Some (stateId cur))]"
            using ex by (simp add: states_completeStateTransition states_updateState)
          with commit_shape_bump [OF act i] False nx show ?thesis
            by (simp add: handlerPrior_def handlerSnapshot_def handlerTarget_def
                newStateRecord_def)
        qed
      qed
    qed
  qed
  with i fr show ?thesis by auto
qed


text \<open>
  C5, as the code has it. A transition commit, made from the current state of a citizen
  with at most one active document, leaves the prior document inactive and completed,
  stamped with the extracted data passed to the commit, and the new document as the only
  active one, in one update of the store. A call of the handler keeps the number of
  active documents of every citizen at most one. When the call commits a transition, it
  does so from the state it read: the prior document, with the results of the call
  recorded on it, is stamped with the extracted data of the results, or with the empty
  object when the call leaves \<open>initial\<close> or completes the registration, and the new document
  is the only active one. All this is for calls handled one after another, where each
  call reads the current state after the commit of the call before.
\<close>

theorem one_active_state_record:
  "(getCurrentState d n = Some cur \<and> length (filter isActive (states d n)) \<le> 1 \<longrightarrow>
      (\<exists>i < length (states d n). states d n ! i = cur \<and>
         states (completeStateTransition d n cur data next) n ! i =
           cur\<lparr>isActive := False, isCompleted := True, stamped_extractedData := data,
               finalConfidence := finalConfidenceOf data\<rparr>) \<and>
      filter isActive (states (completeStateTransition d n cur data next) n) =
        [newStateRecord (length (states d n)) next (Some (stateId cur))]) \<and>
   (length (filter isActive (states d m)) \<le> 1 \<longrightarrow>
      length (filter isActive
        (states (fst (processRegistrationWithFunctionCalling ai prov clk d n msg l c)) m)) \<le> 1) \<and>
   (getCurrentState d n = Some cur \<and> length (filter isActive (states d n)) \<le> 1 \<and>
    length (states (fst (processRegistrationWithFunctionCalling ai prov clk d n msg l c)) n)
      \<noteq> length (states d n) \<longrightarrow>
      (\<exists>i < length (states d n). states d n ! i = cur \<and>
         states (fst (processRegistrationWithFunctionCalling ai prov clk d n msg l c)) n ! i =
           (handlerPrior cur
              (fst (processRegistrationWithFunctions ai prov clk (geocodingCollection d) msg
                 (stateId cur) l)))
           \<lparr>isActive := False, isCompleted := True,
            stamped_extractedData := handlerSnapshot cur
              (fst (processRegistrationWithFunctions ai prov clk (geocodingCollection d) msg
                 (stateId cur) l)),
            finalConfidence := finalConfidenceOf (handlerSnapshot cur
              (fst (processRegistrationWithFunctions ai prov clk (geocodingCollection d) msg
                 (stateId cur) l)))\<rparr>) \<and>
      filter isActive
        (states (fst (processRegistrationWithFunctionCalling ai prov clk d n msg l c)) n) =
        [newStateRecord (length (states d n))
           (handlerTarget cur
              (fst (processRegistrationWithFunctions ai prov clk (geocodingCollection d) msg
                 (stateId cur) l)))
           (Some (stateId cur))])"
proof (intro conjI impI)
  assume a: "getCurrentState d n = Some cur \<and> length (filter isActive (states d n)) \<le> 1"
  then show "\<exists>i < length (states d n). states d n ! i = cur \<and>
         states (completeStateTransition d n cur data next) n ! i =
           cur\<lparr>isActive := False, isCompleted := True, stamped_extractedData := data,
               finalConfidence := finalConfidenceOf data\<rparr>"
    using deactivated_after_transition by blast
  from a have "filter isActive (states d n) = [cur]"
    by (simp add: current_is_only_active)
  then have "\<forall>r \<in> set (states d n). isActive r \<longrightarrow> doc_id r = doc_id cur"
    using only_active_doc_id by blast
  then show "filter isActive (states (completeStateTransition d n cur data next) n) =
        [newStateRecord (length (states d n)) next (Some (stateId cur))]"
    by (rule active_after_transition)
next
  assume "length (filter isActive (states d m)) \<le> 1"
  then show "length (filter isActive
        (states (fst (processRegistrationWithFunctionCalling ai prov clk d n msg l c)) m)) \<le> 1"
    by (rule handler_keeps_one_active)
next
  assume a: "getCurrentState d n = Some cur \<and> length (filter isActive (states d n)) \<le> 1 \<and>
    length (states (fst (processRegistrationWithFunctionCalling ai prov clk d n msg l c)) n)
      \<noteq> length (states d n)"
  then have cs: "getCurrentState d n = Some cur"
    and one: "length (filter isActive (states d n)) \<le> 1"
    and moved: "length (states (fst (processRegistrationWithFunctionCalling ai prov clk d n msg l
        c)) n) \<noteq> length (states d n)"
    by simp_all
  from handler_commit [OF cs one moved]
  show "\<exists>i < length (states d n). states d n ! i = cur \<and>
         states (fst (processRegistrationWithFunctionCalling ai prov clk d n msg l c)) n ! i =
           (handlerPrior cur
              (fst (processRegistrationWithFunctions ai prov clk (geocodingCollection d) msg
                 (stateId cur) l)))
           \<lparr>isActive := False, isCompleted := True,
            stamped_extractedData := handlerSnapshot cur
              (fst (processRegistrationWithFunctions ai prov clk (geocodingCollection d) msg
                 (stateId cur) l)),
            finalConfidence := finalConfidenceOf (handlerSnapshot cur
              (fst (processRegistrationWithFunctions ai prov clk (geocodingCollection d) msg
                 (stateId cur) l)))\<rparr>"
    and "filter isActive
        (states (fst (processRegistrationWithFunctionCalling ai prov clk d n msg l c)) n) =
        [newStateRecord (length (states d n))
           (handlerTarget cur
              (fst (processRegistrationWithFunctions ai prov clk (geocodingCollection d) msg
                 (stateId cur) l)))
           (Some (stateId cur))]"
    by simp_all
qed

lemma name_accept_states:
  assumes "getCurrentState d n = Some cur" and "stateId cur = Awaiting_name"
    and "classify ai msg Awaiting_name = Analysis a" and "has_required_data a"
    and "sa_confidence a > 0.7" and "next_state a \<noteq> Completed"
    and "extractName ai msg = Some (name, c)"
  shows "states (fst (processRegistrationWithFunctionCalling ai prov clk d n msg l citizenData)) n =
           map (deactivate cur
                  (Some \<lparr>full_name = Some name, village_name = None, ed_confidence = c,
                      needs_geocoding = None, geocoding = None, ed_coordinates = None,
                      validated_village = None, ed_taluka = None\<rparr>))
             (map (bump cur
                (analysedResults (Some a)
                   (Some \<lparr>full_name = Some name, village_name = None, ed_confidence = c,
                       needs_geocoding = None, geocoding = None, ed_coordinates = None,
                       validated_village = None, ed_taluka = None\<rparr>)
                   Awaiting_name))
                (states d n)) @
           [newStateRecord (length (states d n)) (next_state a) (Some Awaiting_name)]"
proof -
  have r: "processRegistrationWithFunctions ai prov clk (geocodingCollection d) msg
      Awaiting_name l =
      (analysedResults (Some a)
         (Some \<lparr>full_name = Some name, village_name = None, ed_confidence = c,
             needs_geocoding = None, geocoding = None, ed_coordinates = None,
             validated_village = None, ed_taluka = None\<rparr>)
         Awaiting_name, geocodingCollection d)"
    using assms(3,4,7) by (rule name_results)
  have g: "passesGate (analysedResults (Some a)
         (Some \<lparr>full_name = Some name, village_name = None, ed_confidence = c,
             needs_geocoding = None, geocoding = None, ed_coordinates = None,
             validated_village = None, ed_taluka = None\<rparr>) Awaiting_name)"
    using assms(4,5) by (simp add: passesGate_def analysedResults_def)
  from handler_advance [OF startState_current [OF assms(1)] _ _ _ g, of ai prov clk msg l
      "geocodingCollection d" citizenData] assms(2,6) r
  show "states (fst (processRegistrationWithFunctionCalling ai prov clk d n msg l citizenData)) n =
           map (deactivate cur
                  (Some \<lparr>full_name = Some name, village_name = None, ed_confidence = c,
                      needs_geocoding = None, geocoding = None, ed_coordinates = None,
                      validated_village = None, ed_taluka = None\<rparr>))
             (map (bump cur
                (analysedResults (Some a)
                   (Some \<lparr>full_name = Some name, village_name = None, ed_confidence = c,
                       needs_geocoding = None, geocoding = None, ed_coordinates = None,
                       validated_village = None, ed_taluka = None\<rparr>)
                   Awaiting_name))
                (states d n)) @
           [newStateRecord (length (states d n)) (next_state a) (Some Awaiting_name)]"
    by (simp add: analysedResults_def states_completeStateTransition states_updateState)
qed

lemmas ramesh_accepted = name_accept_states
  [where d = "sample_db Awaiting_name (newCitizen None)" and n = phone
      and cur = "newStateRecord 0 Awaiting_name None"
      and ai = "sample_llm Awaiting_village True 0.9 (Some (ascii ''Ramesh Patil'', 0.9)) None"
      and msg = "ascii ''Ramesh Patil''"
      and a = "\<lparr>current_state = Awaiting_name, user_intent = Providing_info,
        has_required_data = True, next_state = Awaiting_village, sa_confidence = 0.9,
        reason = []\<rparr>"
      and name = "ascii ''Ramesh Patil''" and c = "0.9" and prov = sample_provider
      and clk = sample_clock and l = En and citizenData = "newCitizen None"]

lemma ramesh_results:
  "processRegistrationWithFunctions
      (sample_llm Awaiting_village True 0.9 (Some (ascii ''Ramesh Patil'', 0.9)) None)
      prov clk cache (ascii ''Ramesh Patil'') Awaiting_name l =
   (analysedResults
      (Some \<lparr>current_state = Awaiting_name, user_intent = Providing_info,
         has_required_data = True, next_state = Awaiting_village, sa_confidence = 0.9,
         reason = []\<rparr>)
      (Some ramesh_extraction) Awaiting_name, cache)"
  by (simp add: name_results sample_classify ramesh_extraction_def)

lemma ramesh_states:
  "states (fst (processRegistrationWithFunctionCalling
      (sample_llm Awaiting_village True 0.9 (Some (ascii ''Ramesh Patil'', 0.9)) None)
      sample_provider sample_clock (sample_db Awaiting_name (newCitizen None)) phone
      (ascii ''Ramesh Patil'') En (newCitizen None))) phone =
   [(bump (newStateRecord 0 Awaiting_name None)
       (analysedResults
          (Some \<lparr>current_state = Awaiting_name, user_intent = Providing_info,
             has_required_data = True, next_state = Awaiting_village, sa_confidence = 0.9,
             reason = []\<rparr>)
          (Some ramesh_extraction) Awaiting_name)
       (newStateRecord 0 Awaiting_name None))
     \<lparr>isActive := False, isCompleted := True, stamped_extractedData := Some ramesh_extraction,
      finalConfidence := Some 0.9\<rparr>,
    newStateRecord 1 Awaiting_village (Some Awaiting_name)]"
  using ramesh_accepted
  by (simp add: sample_current sample_classify sample_db_fields newStateRecord_def
      ramesh_extraction_def deactivate_def bump_def finalConfidenceOf_def)


theorem one_active_state_record_witness:
  "filter isActive (states (completeStateTransition (sample_db Awaiting_name (newCitizen None))
      phone (newStateRecord 0 Awaiting_name None) (Some ramesh_extraction) Awaiting_village)
      phone) =
     [newStateRecord 1 Awaiting_village (Some Awaiting_name)] \<and>
   length (filter isActive (states (fst (processRegistrationWithFunctionCalling
      (sample_llm Awaiting_village True 0.9 (Some (ascii ''Ramesh Patil'', 0.9)) None)
      sample_provider sample_clock (sample_db Awaiting_name (newCitizen None)) phone
      (ascii ''Ramesh Patil'') En (newCitizen None))) phone)) \<le> 1 \<and>
   stamped_extractedData (states (fst (processRegistrationWithFunctionCalling
      (sample_llm Awaiting_village True 0.9 (Some (ascii ''Ramesh Patil'', 0.9)) None)
      sample_provider sample_clock (sample_db Awaiting_name (newCitizen None)) phone
      (ascii ''Ramesh Patil'') En (newCitizen None))) phone ! 0) = Some ramesh_extraction \<and>
   filter isActive (states (fst (processRegistrationWithFunctionCalling
      (sample_llm Awaiting_village True 0.9 (Some (ascii ''Ramesh Patil'', 0.9)) None)
      sample_provider sample_clock (sample_db Awaiting_name (newCitizen None)) phone
      (ascii ''Ramesh Patil'') En (newCitizen None))) phone) =
     [newStateRecord 1 Awaiting_village (Some Awaiting_name)]"
  using one_active_state_record [of "sample_db Awaiting_name (newCitizen None)" phone
      "newStateRecord 0 Awaiting_name None" "Some ramesh_extraction" Awaiting_village phone
      "sample_llm Awaiting_village True 0.9 (Some (ascii ''Ramesh Patil'', 0.9)) None"
      sample_provider sample_clock "ascii ''Ramesh Patil''" En "newCitizen None"]
    sample_current [of Awaiting_name "newCitizen None"]
    sample_one_active [of Awaiting_name "newCitizen None"]
  by (simp add: ramesh_states ramesh_results sample_db_fields handlerSnapshot_def
      handlerTarget_def analysedResults_def newStateRecord_def)

lemma village_complete_states:
  assumes "getCurrentState d n = Some cur" and "stateId cur = Awaiting_village"
    and "classify ai msg Awaiting_village = Analysis a" and "has_required_data a"
    and "sa_confidence a > 0.7" and "next_state a = Completed"
    and "extractVillage ai msg = Some (name, c, g)" and "name \<noteq> []"
    and "outcome (geocodeVillage prov clk (geocodingCollection d) name l) = Success gs"
    and "citizensCollection d n = Some cz"
  shows "map stamped_extractedData
           (states (fst (processRegistrationWithFunctionCalling ai prov clk d n msg l
              citizenData)) n) =
         map (\<lambda>r. if doc_id r = doc_id cur then None else stamped_extractedData r)
           (states d n) @ [None]"
proof -
  have r: "processRegistrationWithFunctions ai prov clk (geocodingCollection d) msg
      Awaiting_village l =
      (analysedResults (Some a)
         (Some (mergeGeocode
            \<lparr>full_name = None, village_name = Some name, ed_confidence = c,
             needs_geocoding = Some g, geocoding = None, ed_coordinates = None,
             validated_village = None, ed_taluka = None\<rparr> gs))
         Awaiting_village,
       cache_after (geocodeVillage prov clk (geocodingCollection d) name l))"
    using assms(3,4,7,8,9) by (rule village_success_results)
  show ?thesis
    using assms(5)
    by (simp add: handler_unfold startState_current [OF assms(1)] assms r analysedResults_def
        passesGate_def Let_def states_completeRegistration states_completeStateTransition
        states_updateState updateCitizenDataFromFunctions_def truthy_def
        deactivate_def bump_def newStateRecord_def comp_def)
qed

lemmas saswad_completes = village_complete_states
  [where d = "sample_db Awaiting_village ramesh" and n = phone
      and cur = "newStateRecord 0 Awaiting_village None"
      and ai = "sample_llm Completed True 0.9 None (Some (ascii ''Saswad'', 0.9, True))"
      and msg = "ascii ''Saswad''"
      and a = "\<lparr>current_state = Awaiting_village, user_intent = Providing_info,
        has_required_data = True, next_state = Completed, sa_confidence = 0.9, reason = []\<rparr>"
      and name = "ascii ''Saswad''" and c = "0.9" and g = True and prov = sample_provider
      and clk = sample_clock and l = En and gs = saswad_result and cz = ramesh
      and citizenData = ramesh]

text \<open>
  Against C5 as stated. The handler reads the current state before its batch and outside
  it. When two messages of a citizen in \<open>awaiting_name\<close> overlap, both calls read the same
  document; after the first call has committed, the commit of the second, made from the
  document it read, adds a second active document. And the commit that completes a
  registration stamps the prior document with the empty object, although the village
  extracted from the message was accepted with a confidence of 0.9.
\<close>

theorem overlapping_commits_leave_two_active:
  "getCurrentState (sample_db Awaiting_name (newCitizen None)) phone =
     Some (newStateRecord 0 Awaiting_name None) \<and>
   committed (fst (processRegistrationWithFunctionCalling
      (sample_llm Awaiting_village True 0.9 (Some (ascii ''Ramesh Patil'', 0.9)) None)
      sample_provider sample_clock (sample_db Awaiting_name (newCitizen None)) phone
      (ascii ''Ramesh Patil'') En (newCitizen None))) phone =
     [(0, Awaiting_name, False), (1, Awaiting_village, True)] \<and>
   committed (completeStateTransition
      (fst (processRegistrationWithFunctionCalling
        (sample_llm Awaiting_village True 0.9 (Some (ascii ''Ramesh Patil'', 0.9)) None)
        sample_provider sample_clock (sample_db Awaiting_name (newCitizen None)) phone
        (ascii ''Ramesh Patil'') En (newCitizen None)))
      phone (newStateRecord 0 Awaiting_name None) (Some ramesh_extraction) Awaiting_village)
      phone =
     [(0, Awaiting_name, False), (1, Awaiting_village, True), (2, Awaiting_village, True)] \<and>
   map_option ed_confidence (Option.bind (reply_functionCallResults
      (snd (processRegistrationWithFunctionCalling
        (sample_llm Completed True 0.9 None (Some (ascii ''Saswad'', 0.9, True)))
        sample_provider sample_clock (sample_db Awaiting_village ramesh) phone
        (ascii ''Saswad'') En ramesh))) extractedData) = Some 0.9 \<and>
   map stamped_extractedData (states (fst (processRegistrationWithFunctionCalling
        (sample_llm Completed True 0.9 None (Some (ascii ''Saswad'', 0.9, True)))
        sample_provider sample_clock (sample_db Awaiting_village ramesh) phone
        (ascii ''Saswad'') En ramesh)) phone) = [None, None]"
  using saswad_completes saswad_accepted(1)
  by (simp add: sample_current sample_classify sample_db_fields names_not_empty
      saswad_first_call newStateRecord_def saswad_result_def committed_def ramesh_states
      states_completeStateTransition deactivate_def bump_def)

end
